theory Spec2Isabelle
  imports Complex_Main "HOL-Library.Sublist" "HOL-Library.Log_Nat"
begin

section \<open>Python preliminaries\<close>

text \<open>
  Exceptions are values. Each constructor is one of the Python exception classes the
  sources raise or let propagate; the argument is the message.
\<close>

datatype py_error =
    ValueError string
  | IndexError string
  | KeyError string
  | TypeError string
  | AttributeError string
  | OSError string
  | ZeroDivisionError string
  | OverflowError string

text \<open>
  Python sequence indexing \<open>xs[i]\<close>: a negative index counts from the end, anything
  outside \<open>-len(xs) .. len(xs) - 1\<close> raises (here: \<open>None\<close>).
\<close>

definition py_index :: "'a list \<Rightarrow> int \<Rightarrow> 'a option" where
  "py_index xs i =
     (if 0 \<le> i \<and> i < int (length xs) then Some (xs ! nat i)
      else if - int (length xs) \<le> i \<and> i < 0 then Some (xs ! nat (int (length xs) + i))
      else None)"

text \<open>\<open>str(i)\<close> of a Python integer: decimal digits, a minus sign for negatives.\<close>

definition digit_char :: "nat \<Rightarrow> char" where
  "digit_char d = ''0123456789'' ! d"

fun str_nat :: "nat \<Rightarrow> string" where
  "str_nat n = (if n < 10 then [digit_char n] else str_nat (n div 10) @ [digit_char (n mod 10)])"

declare str_nat.simps [simp del]

definition str_int :: "int \<Rightarrow> string" where
  "str_int i = (if i < 0 then CHR ''-'' # str_nat (nat (- i)) else str_nat (nat i))"

text \<open>The substring test \<open>pat in s\<close>.\<close>

fun startswith :: "string \<Rightarrow> string \<Rightarrow> bool" where
  "startswith s [] = True"
| "startswith [] (p # ps) = False"
| "startswith (c # cs) (p # ps) = (c = p \<and> startswith cs ps)"

fun contains :: "string \<Rightarrow> string \<Rightarrow> bool" where
  "contains pat [] = (pat = [])"
| "contains pat (c # cs) = (startswith (c # cs) pat \<or> contains pat cs)"

text \<open>
  \<open>s.split(sep)\<close> for a one-character separator: the pieces between the separators;
  the result is never empty.
\<close>

fun split_on :: "char \<Rightarrow> string \<Rightarrow> string list" where
  "split_on sep [] = [[]]"
| "split_on sep (c # cs) =
     (if c = sep then [] # split_on sep cs
      else (case split_on sep cs of
              [] \<Rightarrow> [[c]]
            | p # ps \<Rightarrow> (c # p) # ps))"

text \<open>
  \<open>s.strip()\<close> removes leading and trailing whitespace, \<open>s.strip(chars)\<close> leading and
  trailing characters of \<open>chars\<close>. Strings are sequences of code points below 256; the
  whitespace among them is what \<open>str.isspace\<close> accepts there.
\<close>

definition whitespace :: "char list" where
  "whitespace =
     [CHR 0x09, CHR 0x0A, CHR 0x0B, CHR 0x0C, CHR 0x0D, CHR 0x1C, CHR 0x1D, CHR 0x1E,
      CHR 0x1F, CHR 0x20, CHR 0x85, CHR 0xA0]"

definition strip_chars :: "char list \<Rightarrow> string \<Rightarrow> string" where
  "strip_chars chars s =
     rev (dropWhile (\<lambda>c. c \<in> set chars) (rev (dropWhile (\<lambda>c. c \<in> set chars) s)))"

definition strip :: "string \<Rightarrow> string" where
  "strip s = strip_chars whitespace s"


section \<open>setup.py: version resolution\<close>

text \<open>
  \<^verbatim>\<open>
  default_v = '0.0.0'
  version = default_v
  with open(init_file, 'r') as f:
      lines = f.readlines()
      for line in lines:
          if '__version__ =' in line:
              version = line.split('=')[-1].strip().strip("'\"")
              break
  \<close>
  The file is the list of its lines, as \<open>readlines\<close> returns them.
\<close>

definition default_v :: string where
  "default_v = ''0.0.0''"

definition marker :: string where
  "marker = ''__version__ =''"

definition quote_chars :: "char list" where
  "quote_chars = [CHR 0x27, CHR 0x22]"

definition version_of_line :: "string \<Rightarrow> string" where
  "version_of_line line = strip_chars quote_chars (strip (last (split_on CHR ''='' line)))"

fun scan_lines :: "string list \<Rightarrow> string \<Rightarrow> string" where
  "scan_lines [] version = version"
| "scan_lines (line # lines) version =
     (if contains marker line then version_of_line line else scan_lines lines version)"

definition version :: "string list \<Rightarrow> string" where
  "version lines = scan_lines lines default_v"

text \<open>
  The spec's wording, to compare with: the text after the marker's \<open>=\<close>, that is after
  the first occurrence of \<open>__version__ =\<close> on the line.
\<close>

fun after_first :: "string \<Rightarrow> string \<Rightarrow> string" where
  "after_first pat [] = []"
| "after_first pat (c # cs) =
     (if startswith (c # cs) pat then drop (length pat) (c # cs) else after_first pat cs)"

definition spec_version_of_line :: "string \<Rightarrow> string" where
  "spec_version_of_line line = strip_chars quote_chars (strip (after_first marker line))"

text \<open>The text after the last occurrence of a character.\<close>

definition after_last :: "char \<Rightarrow> string \<Rightarrow> string" where
  "after_last c s = rev (takeWhile (\<lambda>x. x \<noteq> c) (rev s))"


section \<open>PyPOTypes.py: the result containers\<close>

text \<open>
  A numpy array is its shape and the element at each multi-index. \<open>a.T\<close> reverses the
  axes, and the element count of an array is the product of its shape. The components of
  fields and currents are arrays of complex numbers (a real array is one whose elements
  have no imaginary part), and \<open>a.conj()\<close> conjugates every element.
\<close>

record 'a ndarray =
  nd_shape :: "nat list"
  nd_item :: "nat list \<Rightarrow> 'a"

definition ndarray_T :: "'a ndarray \<Rightarrow> 'a ndarray" where
  "ndarray_T a = a\<lparr>nd_shape := rev (nd_shape a), nd_item := (\<lambda>idx. nd_item a (rev idx))\<rparr>"

definition ndarray_conj :: "complex ndarray \<Rightarrow> complex ndarray" where
  "ndarray_conj a = a\<lparr>nd_item := (\<lambda>idx. cnj (nd_item a idx))\<rparr>"

definition nd_size :: "'a ndarray \<Rightarrow> nat" where
  "nd_size a = prod_list (nd_shape a)"

text \<open>
  \<^verbatim>\<open>
  class resContainer(object):
      def __init__(self, *args, restype=None):
          self.type = "EH" if restype is None else restype
          self.memlist = []
          self.shape = args[0].shape
          self.size = self.shape[0] * self.shape[1]
          n = 0
          ax = ["x", "y", "z"]
          for i, arg in enumerate(args):
              if not i % 3 and i != 0:
                  n += 1
              self.memlist.append(f"{self.type[n]}{ax[i - 3*n]}")
              setattr(self, self.memlist[i], arg)
  \<close>
  The object is a record of the attributes the constructor sets by name, and a map
  \<open>attrs\<close> for the attributes it sets through \<open>setattr\<close> under the computed labels.
  The labels are a letter of the type tag followed by an axis letter, so none of them
  is the name of another attribute. \<open>setMeta\<close> adds \<open>surf\<close> and \<open>k\<close>.
\<close>

record resContainer =
  type_tag :: string
  memlist :: "string list"
  shape :: "nat list"
  size_c :: nat
  attrs :: "string \<rightharpoonup> complex ndarray"
  meta_surf :: "string option"
  meta_k :: "real option"

definition ax :: "string list" where
  "ax = [''x'', ''y'', ''z'']"

fun init_loop ::
  "string \<Rightarrow> nat \<Rightarrow> nat \<Rightarrow> complex ndarray list \<Rightarrow> string list \<Rightarrow> (string \<rightharpoonup> complex ndarray)
     \<Rightarrow> py_error + (string list \<times> (string \<rightharpoonup> complex ndarray))" where
  "init_loop ty i n [] ml atts = Inr (ml, atts)"
| "init_loop ty i n (arg # args) ml atts =
     (let n' = (if i mod 3 = 0 \<and> i \<noteq> 0 then n + 1 else n) in
      case py_index ty (int n') of
        None \<Rightarrow> Inl (IndexError ''string index out of range'')
      | Some letter \<Rightarrow>
          (case py_index ax (int i - 3 * int n') of
             None \<Rightarrow> Inl (IndexError ''list index out of range'')
           | Some axis \<Rightarrow>
               (let ml' = ml @ [letter # axis] in
                case py_index ml' (int i) of
                  None \<Rightarrow> Inl (IndexError ''list index out of range'')
                | Some label \<Rightarrow> init_loop ty (i + 1) n' args ml' (atts(label \<mapsto> arg)))))"

definition resContainer_init :: "complex ndarray list \<Rightarrow> string option \<Rightarrow> py_error + resContainer" where
  "resContainer_init args restype =
     (let ty = (case restype of None \<Rightarrow> ''EH'' | Some t \<Rightarrow> t) in
      case py_index args 0 of
        None \<Rightarrow> Inl (IndexError ''tuple index out of range'')
      | Some first \<Rightarrow>
          (case py_index (nd_shape first) 0 of
             None \<Rightarrow> Inl (IndexError ''tuple index out of range'')
           | Some rows \<Rightarrow>
               (case py_index (nd_shape first) 1 of
                  None \<Rightarrow> Inl (IndexError ''tuple index out of range'')
                | Some cols \<Rightarrow>
                    (case init_loop ty 0 0 args [] Map.empty of
                       Inl e \<Rightarrow> Inl e
                     | Inr (ml, atts) \<Rightarrow>
                         Inr \<lparr>type_tag = ty, memlist = ml, shape = nd_shape first,
                              size_c = rows * cols, attrs = atts,
                              meta_surf = None, meta_k = None\<rparr>))))"

definition setMeta :: "resContainer \<Rightarrow> string \<Rightarrow> real \<Rightarrow> resContainer" where
  "setMeta self surf k = self\<lparr>meta_surf := Some surf, meta_k := Some k\<rparr>"

text \<open>
  \<^verbatim>\<open>
  def __getitem__(self, idx):
      try:
          return getattr(self, self.memlist[idx])
      except:
          raise IndexError(f'Index out of range: {idx}')

  def __setitem__(self, idx, item):
      try:
          setattr(self, self.memlist[idx], item)
      except:
          raise IndexError(f'Index out of range: {idx}')
  \<close>
  Whatever fails inside the \<open>try\<close> (the list index, or a missing attribute) becomes the
  one \<open>IndexError\<close>.
\<close>

definition index_message :: "int \<Rightarrow> string" where
  "index_message idx = ''Index out of range: '' @ str_int idx"

definition getitem :: "resContainer \<Rightarrow> int \<Rightarrow> py_error + complex ndarray" where
  "getitem self idx =
     (case py_index (memlist self) idx of
        None \<Rightarrow> Inl (IndexError (index_message idx))
      | Some label \<Rightarrow>
          (case attrs self label of
             None \<Rightarrow> Inl (IndexError (index_message idx))
           | Some a \<Rightarrow> Inr a))"

definition setitem :: "resContainer \<Rightarrow> int \<Rightarrow> complex ndarray \<Rightarrow> py_error + resContainer" where
  "setitem self idx item =
     (case py_index (memlist self) idx of
        None \<Rightarrow> Inl (IndexError (index_message idx))
      | Some label \<Rightarrow> Inr (self\<lparr>attrs := (attrs self)(label \<mapsto> item)\<rparr>))"

text \<open>
  \<^verbatim>\<open>
  def T(self):
      for i in range(6):
          self[i] = self[i].T
      return self

  def H(self):
      for i in range(6):
          self[i] = self[i].conj().T
      return self
  \<close>
  The two loops differ in the operation on the component only. The object is mutated in
  place: when an iteration raises, the error comes with the object as the earlier
  iterations left it.
\<close>

fun component_loop ::
  "(complex ndarray \<Rightarrow> complex ndarray) \<Rightarrow> nat list \<Rightarrow> resContainer
     \<Rightarrow> (py_error \<times> resContainer) + resContainer" where
  "component_loop f [] self = Inr self"
| "component_loop f (i # rest) self =
     (case getitem self (int i) of
        Inl e \<Rightarrow> Inl (e, self)
      | Inr a \<Rightarrow>
          (case setitem self (int i) (f a) of
             Inl e \<Rightarrow> Inl (e, self)
           | Inr self' \<Rightarrow> component_loop f rest self'))"

definition T :: "resContainer \<Rightarrow> (py_error \<times> resContainer) + resContainer" where
  "T self = component_loop ndarray_T [0..<6] self"

definition H :: "resContainer \<Rightarrow> (py_error \<times> resContainer) + resContainer" where
  "H self = component_loop (\<lambda>a. ndarray_T (ndarray_conj a)) [0..<6] self"

text \<open>
  The container of the data model: six components under six different labels, each
  label bound to an array.
\<close>

definition six_components :: "resContainer \<Rightarrow> bool" where
  "six_components c \<longleftrightarrow>
     length (memlist c) = 6 \<and> distinct (memlist c) \<and> set (memlist c) \<subseteq> dom (attrs c)"


text \<open>
  What one pass of \<open>T\<close> or \<open>H\<close> leaves behind: the operation applied to the array under
  every label of the member list, every other attribute as it was.
\<close>

definition map_components :: "(complex ndarray \<Rightarrow> complex ndarray) \<Rightarrow> resContainer \<Rightarrow> resContainer" where
  "map_components f c =
     c\<lparr>attrs := (\<lambda>l. if l \<in> set (memlist c) then map_option f (attrs c l) else attrs c l)\<rparr>"

section \<open>Python floats\<close>

text \<open>
  A Python float is an IEEE 754 binary64 number: a sign with a magnitude that is a
  multiple of a power of two with at most 53 significant bits, an infinity, or NaN.
  Every literal and every arithmetic result is the exact value rounded to the nearest
  such number, ties to the even significand; a magnitude that rounds to \<open>2^1024\<close> or more
  overflows. \<open>ilog2\<close> is the binary exponent of a positive rational, and
  \<open>round_mag\<close> rounds a magnitude (\<open>None\<close>: overflow), in steps of \<open>2^-1074\<close> below the
  normal range.
\<close>

definition ilog2 :: "rat \<Rightarrow> int" where
  "ilog2 q = (let (n, d) = quotient_of q; e = bitlen n - bitlen d
              in if 2 powi e \<le> q then e else e - 1)"

definition round_half_even :: "rat \<Rightarrow> int" where
  "round_half_even q =
     (let f = \<lfloor>q\<rfloor>; r = q - of_int f
      in if r < 1 / 2 then f else if 1 / 2 < r then f + 1 else if even f then f else f + 1)"

definition round_mag :: "rat \<Rightarrow> rat option" where
  "round_mag q =
     (if q = 0 then Some 0
      else (let e = max (ilog2 q - 52) (- 1074);
                r = of_int (round_half_even (q / 2 powi e)) * 2 powi e
            in if r < 2 powi 1024 then Some r else None))"

datatype pyfloat = Finite bool rat | Infinity bool | NaN

text \<open>\<open>Finite s m\<close> is \<open>-m\<close> when \<open>s\<close> holds and \<open>m\<close> otherwise; likewise \<open>Infinity s\<close>.\<close>

definition float_lit :: "rat \<Rightarrow> pyfloat" where
  "float_lit q = (case round_mag \<bar>q\<bar> of
                    None \<Rightarrow> Infinity (q < 0)
                  | Some r \<Rightarrow> Finite (q < 0) r)"

fun float_mul :: "pyfloat \<Rightarrow> pyfloat \<Rightarrow> pyfloat" where
  "float_mul (Finite s m) (Finite t k) =
     (case round_mag (m * k) of
        None \<Rightarrow> Infinity (s \<noteq> t)
      | Some r \<Rightarrow> Finite (s \<noteq> t) r)"
| "float_mul (Finite s m) (Infinity t) = (if m = 0 then NaN else Infinity (s \<noteq> t))"
| "float_mul (Infinity s) (Finite t k) = (if k = 0 then NaN else Infinity (s \<noteq> t))"
| "float_mul (Infinity s) (Infinity t) = Infinity (s \<noteq> t)"
| "float_mul NaN y = NaN"
| "float_mul x NaN = NaN"

fun float_div :: "pyfloat \<Rightarrow> pyfloat \<Rightarrow> pyfloat" where
  "float_div (Finite s m) (Finite t k) =
     (if k = 0 then (if m = 0 then NaN else Infinity (s \<noteq> t))
      else (case round_mag (m / k) of
              None \<Rightarrow> Infinity (s \<noteq> t)
            | Some r \<Rightarrow> Finite (s \<noteq> t) r))"
| "float_div (Finite s m) (Infinity t) = Finite (s \<noteq> t) 0"
| "float_div (Infinity s) (Finite t k) = Infinity (s \<noteq> t)"
| "float_div (Infinity s) (Infinity t) = NaN"
| "float_div NaN y = NaN"
| "float_div x NaN = NaN"

text \<open>
  Python's \<open>x / y\<close> on floats raises for a zero divisor and is the IEEE quotient
  otherwise; \<open>float(i)\<close> of an integer rounds, and raises when it overflows.
\<close>

definition float_truediv :: "pyfloat \<Rightarrow> pyfloat \<Rightarrow> py_error + pyfloat" where
  "float_truediv x y =
     (case y of
        Finite t k \<Rightarrow>
          if k = 0 then Inl (ZeroDivisionError ''float division by zero'')
          else Inr (float_div x y)
      | _ \<Rightarrow> Inr (float_div x y))"

definition float_of_int :: "int \<Rightarrow> py_error + pyfloat" where
  "float_of_int i =
     (case round_mag (of_int \<bar>i\<bar>) of
        None \<Rightarrow> Inl (OverflowError ''int too large to convert to float'')
      | Some r \<Rightarrow> Inr (Finite (i < 0) r))"


section \<open>Enums.py: the enumerations with behaviour\<close>

text \<open>
  \<^verbatim>\<open>
  class Units(CustomEnumTuple):
      M = (1e3, "spatial")
      CM = (1e-2*M[0], "spatial")
      MM = (1e-3*M[0], "spatial")
      UM = (1e-6*M[0], "spatial")
      NM = (1e-9*M[0], "spatial")
      IN = (25.4*MM[0], "spatial")
      MIL = (IN[0]*1e-3, "spatial")
      THOU = (IN[0]*1e-3, "spatial")
      UIN = (IN[0]*1e-6, "spatial")
      FT = (12*IN[0], "spatial")
      DEG = (1., "angular")
      AM = (60., "angular")
      AS = (3600., "angular")
      RAD = (180/pi*DEG[0], "angular")
      MRAD = (RAD[0]*1e-3, "angular")
      URAD = (RAD[0]*1e-6, "angular")
  \<close>
  Inside the class body each name is still the plain tuple, so \<open>M[0]\<close> is its first
  component. The integers \<open>12\<close> and \<open>180\<close> meet a float and are converted exactly.
  \<open>pi\<close> is numpy's constant, the float written \<open>3.141592653589793\<close>; it is not zero, so
  the division does not raise. \<open>THOU\<close> has the value of \<open>MIL\<close>, which makes it an alias of
  that member and not a member of its own.
\<close>

definition np_pi :: pyfloat where
  "np_pi = float_lit (3141592653589793 / 10 ^ 15)"

definition M_value :: "pyfloat \<times> string" where
  "M_value = (float_lit (10 ^ 3), ''spatial'')"

definition CM_value :: "pyfloat \<times> string" where
  "CM_value = (float_mul (float_lit (1 / 10 ^ 2)) (fst M_value), ''spatial'')"

definition MM_value :: "pyfloat \<times> string" where
  "MM_value = (float_mul (float_lit (1 / 10 ^ 3)) (fst M_value), ''spatial'')"

definition UM_value :: "pyfloat \<times> string" where
  "UM_value = (float_mul (float_lit (1 / 10 ^ 6)) (fst M_value), ''spatial'')"

definition NM_value :: "pyfloat \<times> string" where
  "NM_value = (float_mul (float_lit (1 / 10 ^ 9)) (fst M_value), ''spatial'')"

definition IN_value :: "pyfloat \<times> string" where
  "IN_value = (float_mul (float_lit (254 / 10)) (fst MM_value), ''spatial'')"

definition MIL_value :: "pyfloat \<times> string" where
  "MIL_value = (float_mul (fst IN_value) (float_lit (1 / 10 ^ 3)), ''spatial'')"

definition THOU_value :: "pyfloat \<times> string" where
  "THOU_value = (float_mul (fst IN_value) (float_lit (1 / 10 ^ 3)), ''spatial'')"

definition UIN_value :: "pyfloat \<times> string" where
  "UIN_value = (float_mul (fst IN_value) (float_lit (1 / 10 ^ 6)), ''spatial'')"

definition FT_value :: "pyfloat \<times> string" where
  "FT_value = (float_mul (float_lit 12) (fst IN_value), ''spatial'')"

definition DEG_value :: "pyfloat \<times> string" where
  "DEG_value = (float_lit 1, ''angular'')"

definition AM_value :: "pyfloat \<times> string" where
  "AM_value = (float_lit 60, ''angular'')"

definition AS_value :: "pyfloat \<times> string" where
  "AS_value = (float_lit 3600, ''angular'')"

definition RAD_value :: "pyfloat \<times> string" where
  "RAD_value = (float_mul (float_div (float_lit 180) np_pi) (fst DEG_value), ''angular'')"

definition MRAD_value :: "pyfloat \<times> string" where
  "MRAD_value = (float_mul (fst RAD_value) (float_lit (1 / 10 ^ 3)), ''angular'')"

definition URAD_value :: "pyfloat \<times> string" where
  "URAD_value = (float_mul (fst RAD_value) (float_lit (1 / 10 ^ 6)), ''angular'')"

datatype Units =
  M | CM | MM | UM | NM | IN | MIL | UIN | FT | DEG | AM | AS | RAD | MRAD | URAD

definition THOU :: Units where
  "THOU = MIL"

fun Units_value :: "Units \<Rightarrow> pyfloat \<times> string" where
  "Units_value M = M_value"
| "Units_value CM = CM_value"
| "Units_value MM = MM_value"
| "Units_value UM = UM_value"
| "Units_value NM = NM_value"
| "Units_value IN = IN_value"
| "Units_value MIL = MIL_value"
| "Units_value UIN = UIN_value"
| "Units_value FT = FT_value"
| "Units_value DEG = DEG_value"
| "Units_value AM = AM_value"
| "Units_value AS = AS_value"
| "Units_value RAD = RAD_value"
| "Units_value MRAD = MRAD_value"
| "Units_value URAD = URAD_value"

text \<open>
  \<^verbatim>\<open>
  class Objects(CustomEnumString):
      ELEMENT = "elements"
      GROUP = "groups"
      FRAME = "frames"
      FIELD = "fields"
      CURRENT = "currents"
  \<close>
\<close>

datatype Objects = ELEMENT | GROUP | FRAME | FIELD | CURRENT

fun Objects_value :: "Objects \<Rightarrow> string" where
  "Objects_value ELEMENT = ''elements''"
| "Objects_value GROUP = ''groups''"
| "Objects_value FRAME = ''frames''"
| "Objects_value FIELD = ''fields''"
| "Objects_value CURRENT = ''currents''"

text \<open>
  The values the operators meet: integers, floats, and members of the two enumerations.
  A special method returns a value, returns \<open>NotImplemented\<close>, or raises.
\<close>

datatype pyobj = PInt int | PFloat pyfloat | UnitsM Units | ObjectsM Objects

datatype binop_result = NotImplemented | Returned pyobj | Raised py_error

datatype pytype = TInt | TFloat | TUnits | TObjects

fun py_type :: "pyobj \<Rightarrow> pytype" where
  "py_type (PInt i) = TInt"
| "py_type (PFloat x) = TFloat"
| "py_type (UnitsM u) = TUnits"
| "py_type (ObjectsM obj) = TObjects"

fun type_name :: "pytype \<Rightarrow> string" where
  "type_name TInt = ''int''"
| "type_name TFloat = ''float''"
| "type_name TUnits = ''Units''"
| "type_name TObjects = ''Objects''"

text \<open>The special methods of the built-in numbers, for the two operators of this module.\<close>

fun int_mul :: "int \<Rightarrow> pyobj \<Rightarrow> binop_result" where
  "int_mul a (PInt b) = Returned (PInt (a * b))"
| "int_mul a other = NotImplemented"

fun float_mul_method :: "pyfloat \<Rightarrow> pyobj \<Rightarrow> binop_result" where
  "float_mul_method x (PFloat y) = Returned (PFloat (float_mul x y))"
| "float_mul_method x (PInt b) =
     (case float_of_int b of Inl e \<Rightarrow> Raised e | Inr y \<Rightarrow> Returned (PFloat (float_mul x y)))"
| "float_mul_method x other = NotImplemented"

fun float_rmul_method :: "pyfloat \<Rightarrow> pyobj \<Rightarrow> binop_result" where
  "float_rmul_method y (PFloat x) = Returned (PFloat (float_mul x y))"
| "float_rmul_method y (PInt a) =
     (case float_of_int a of Inl e \<Rightarrow> Raised e | Inr x \<Rightarrow> Returned (PFloat (float_mul x y)))"
| "float_rmul_method y other = NotImplemented"

definition int_truediv :: "int \<Rightarrow> int \<Rightarrow> binop_result" where
  "int_truediv a b =
     (if b = 0 then Raised (ZeroDivisionError ''division by zero'')
      else (case round_mag (\<bar>of_int a / of_int b\<bar>) of
              None \<Rightarrow> Raised (OverflowError ''integer division result too large for a float'')
            | Some r \<Rightarrow> Returned (PFloat (Finite ((a < 0) \<noteq> (b < 0)) r))))"

fun int_truediv_method :: "int \<Rightarrow> pyobj \<Rightarrow> binop_result" where
  "int_truediv_method a (PInt b) = int_truediv a b"
| "int_truediv_method a other = NotImplemented"

fun int_rtruediv_method :: "int \<Rightarrow> pyobj \<Rightarrow> binop_result" where
  "int_rtruediv_method b (PInt a) = int_truediv a b"
| "int_rtruediv_method b other = NotImplemented"

definition raised_or_float :: "py_error + pyfloat \<Rightarrow> binop_result" where
  "raised_or_float r = (case r of Inl e \<Rightarrow> Raised e | Inr x \<Rightarrow> Returned (PFloat x))"

fun float_truediv_method :: "pyfloat \<Rightarrow> pyobj \<Rightarrow> binop_result" where
  "float_truediv_method x (PFloat y) = raised_or_float (float_truediv x y)"
| "float_truediv_method x (PInt b) =
     (case float_of_int b of Inl e \<Rightarrow> Raised e | Inr y \<Rightarrow> raised_or_float (float_truediv x y))"
| "float_truediv_method x other = NotImplemented"

fun float_rtruediv_method :: "pyfloat \<Rightarrow> pyobj \<Rightarrow> binop_result" where
  "float_rtruediv_method y (PFloat x) = raised_or_float (float_truediv x y)"
| "float_rtruediv_method y (PInt a) =
     (case float_of_int a of Inl e \<Rightarrow> Raised e | Inr x \<Rightarrow> raised_or_float (float_truediv x y))"
| "float_rtruediv_method y other = NotImplemented"

definition unsupported :: "string \<Rightarrow> pyobj \<Rightarrow> pyobj \<Rightarrow> py_error" where
  "unsupported opname a b =
     TypeError (''unsupported operand type(s) for '' @ opname @ '': '' @ [CHR 0x27]
                @ type_name (py_type a) @ [CHR 0x27] @ '' and '' @ [CHR 0x27]
                @ type_name (py_type b) @ [CHR 0x27])"

text \<open>
  \<open>other * f\<close> and \<open>other / f\<close> for a float \<open>f\<close> on the right, as the two methods of
  \<open>CustomEnumTuple\<close> evaluate them: numbers multiply and divide; a member of an
  enumeration on the left has no \<open>__mul__\<close> or \<open>__truediv__\<close>, and the float's reflected
  method does not know it, so the operator raises.
\<close>

fun mul_float :: "pyobj \<Rightarrow> pyfloat \<Rightarrow> py_error + pyobj" where
  "mul_float (PFloat x) f = Inr (PFloat (float_mul x f))"
| "mul_float (PInt a) f =
     (case float_of_int a of Inl e \<Rightarrow> Inl e | Inr x \<Rightarrow> Inr (PFloat (float_mul x f)))"
| "mul_float other f = Inl (unsupported ''*'' other (PFloat f))"

fun truediv_float :: "pyobj \<Rightarrow> pyfloat \<Rightarrow> py_error + pyobj" where
  "truediv_float (PFloat x) f = map_sum id PFloat (float_truediv x f)"
| "truediv_float (PInt a) f =
     (case float_of_int a of Inl e \<Rightarrow> Inl e | Inr x \<Rightarrow> map_sum id PFloat (float_truediv x f))"
| "truediv_float other f = Inl (unsupported ''/'' other (PFloat f))"

text \<open>
  \<^verbatim>\<open>
  class CustomEnumString(Enum):
      def __str__(self):
          return self.name
      def __rmul__(self, other):
          return NotImplemented
      def __rtruediv__(self, other):
          return NotImplemented

  class CustomEnumTuple(Enum):
      def __str__(self):
          return self.name
      def __rmul__(self, other):
          return other * self.value[0]
      def rdiv(self, other):
          return other / self.value[0]
  \<close>
  \<open>rdiv\<close> is an ordinary method: no operator looks it up.
\<close>

definition CustomEnumString_rmul :: "Objects \<Rightarrow> pyobj \<Rightarrow> binop_result" where
  "CustomEnumString_rmul self other = NotImplemented"

definition CustomEnumString_rtruediv :: "Objects \<Rightarrow> pyobj \<Rightarrow> binop_result" where
  "CustomEnumString_rtruediv self other = NotImplemented"

definition CustomEnumTuple_rmul :: "Units \<Rightarrow> pyobj \<Rightarrow> binop_result" where
  "CustomEnumTuple_rmul self other =
     (case mul_float other (fst (Units_value self)) of
        Inl e \<Rightarrow> Raised e
      | Inr v \<Rightarrow> Returned v)"

definition rdiv :: "Units \<Rightarrow> pyobj \<Rightarrow> py_error + pyobj" where
  "rdiv self other = truediv_float other (fst (Units_value self))"

fun Units_str :: "Units \<Rightarrow> string" where
  "Units_str M = ''M''"
| "Units_str CM = ''CM''"
| "Units_str MM = ''MM''"
| "Units_str UM = ''UM''"
| "Units_str NM = ''NM''"
| "Units_str IN = ''IN''"
| "Units_str MIL = ''MIL''"
| "Units_str UIN = ''UIN''"
| "Units_str FT = ''FT''"
| "Units_str DEG = ''DEG''"
| "Units_str AM = ''AM''"
| "Units_str AS = ''AS''"
| "Units_str RAD = ''RAD''"
| "Units_str MRAD = ''MRAD''"
| "Units_str URAD = ''URAD''"

fun Objects_str :: "Objects \<Rightarrow> string" where
  "Objects_str ELEMENT = ''ELEMENT''"
| "Objects_str GROUP = ''GROUP''"
| "Objects_str FRAME = ''FRAME''"
| "Objects_str FIELD = ''FIELD''"
| "Objects_str CURRENT = ''CURRENT''"

text \<open>
  The operators \<open>a * b\<close> and \<open>a / b\<close>. The method of the left operand's type is tried
  first; when the type has none or it returns \<open>NotImplemented\<close>, and the operands are of
  different types, the reflected method of the right operand's type is tried; when that
  is missing or returns \<open>NotImplemented\<close> too, the operator raises \<open>TypeError\<close>.
\<close>

fun mul_slot :: "pyobj \<Rightarrow> (pyobj \<Rightarrow> binop_result) option" where
  "mul_slot (PInt a) = Some (int_mul a)"
| "mul_slot (PFloat x) = Some (float_mul_method x)"
| "mul_slot (UnitsM u) = None"
| "mul_slot (ObjectsM obj) = None"

fun rmul_slot :: "pyobj \<Rightarrow> (pyobj \<Rightarrow> binop_result) option" where
  "rmul_slot (PInt b) = Some (int_mul b)"
| "rmul_slot (PFloat y) = Some (float_rmul_method y)"
| "rmul_slot (UnitsM u) = Some (CustomEnumTuple_rmul u)"
| "rmul_slot (ObjectsM obj) = Some (CustomEnumString_rmul obj)"

fun truediv_slot :: "pyobj \<Rightarrow> (pyobj \<Rightarrow> binop_result) option" where
  "truediv_slot (PInt a) = Some (int_truediv_method a)"
| "truediv_slot (PFloat x) = Some (float_truediv_method x)"
| "truediv_slot (UnitsM u) = None"
| "truediv_slot (ObjectsM obj) = None"

fun rtruediv_slot :: "pyobj \<Rightarrow> (pyobj \<Rightarrow> binop_result) option" where
  "rtruediv_slot (PInt b) = Some (int_rtruediv_method b)"
| "rtruediv_slot (PFloat y) = Some (float_rtruediv_method y)"
| "rtruediv_slot (UnitsM u) = None"
| "rtruediv_slot (ObjectsM obj) = Some (CustomEnumString_rtruediv obj)"

definition call_slot :: "(pyobj \<Rightarrow> binop_result) option \<Rightarrow> pyobj \<Rightarrow> binop_result" where
  "call_slot slot arg = (case slot of None \<Rightarrow> NotImplemented | Some method \<Rightarrow> method arg)"

definition binary_op ::
  "string \<Rightarrow> (pyobj \<Rightarrow> (pyobj \<Rightarrow> binop_result) option)
     \<Rightarrow> (pyobj \<Rightarrow> (pyobj \<Rightarrow> binop_result) option) \<Rightarrow> pyobj \<Rightarrow> pyobj \<Rightarrow> py_error + pyobj" where
  "binary_op opname slot rslot a b =
     (case call_slot (slot a) b of
        Returned v \<Rightarrow> Inr v
      | Raised e \<Rightarrow> Inl e
      | NotImplemented \<Rightarrow>
          (case (if py_type a = py_type b then NotImplemented else call_slot (rslot b) a) of
             Returned v \<Rightarrow> Inr v
           | Raised e \<Rightarrow> Inl e
           | NotImplemented \<Rightarrow> Inl (unsupported opname a b)))"

definition py_mul :: "pyobj \<Rightarrow> pyobj \<Rightarrow> py_error + pyobj" where
  "py_mul a b = binary_op ''*'' mul_slot rmul_slot a b"

definition py_truediv :: "pyobj \<Rightarrow> pyobj \<Rightarrow> py_error + pyobj" where
  "py_truediv a b = binary_op ''/'' truediv_slot rtruediv_slot a b"


section \<open>BindRefl.py: the grid bindings\<close>

text \<open>
  The reflector parameter record is a Python dictionary from key names to values; the
  values that matter here are integers, strings and tuples of integers. \<open>py_str\<close> is
  what an f-string puts in place of \<open>{value}\<close>.
\<close>

datatype pyval = VInt int | VStr string | VTuple "int list"

type_synonym reflDict = "string \<rightharpoonup> pyval"

fun str_tuple :: "int list \<Rightarrow> string" where
  "str_tuple [] = ''()''"
| "str_tuple [a] = ''('' @ str_int a @ '',)''"
| "str_tuple (a # rest) = ''('' @ str_int a @ concat (map (\<lambda>i. '', '' @ str_int i) rest) @ '')''"

fun py_str :: "pyval \<Rightarrow> string" where
  "py_str (VInt i) = str_int i"
| "py_str (VStr t) = t"
| "py_str (VTuple xs) = str_tuple xs"

text \<open>
  \<open>d[key][0] * d[key][1]\<close> for the two resolution pairs: a tuple needs two entries, a
  string cannot be multiplied by a string, an integer has no entries.
\<close>

fun pair_product :: "pyval \<Rightarrow> py_error + int" where
  "pair_product (VTuple xs) =
     (case py_index xs 0 of
        None \<Rightarrow> Inl (IndexError ''tuple index out of range'')
      | Some a \<Rightarrow>
          (case py_index xs 1 of
             None \<Rightarrow> Inl (IndexError ''tuple index out of range'')
           | Some b \<Rightarrow> Inr (a * b)))"
| "pair_product (VStr t) =
     (if length t < 2 then Inl (IndexError ''string index out of range'')
      else Inl (TypeError ''cannot multiply sequence by non-int of type str''))"
| "pair_product (VInt i) = Inl (TypeError ''int object is not subscriptable'')"

text \<open>
  What the functions do to the world outside: attempts to load a shared library, and
  calls of a native entry point.
\<close>

datatype event = CDLL string | NativeCall string

text \<open>
  Modelled from the spec: the native structures of \<open>PyPO.Structs\<close> and the marshaling
  routines of \<open>PyPO.BindUtils\<close> (\<open>allfill_reflparams\<close>, \<open>allocate_reflcontainer\<close>,
  \<open>creflToObj\<close>, \<open>cweightsToObj\<close>), which are not among the sources. The native parameter
  record mirrors the key set of the dictionary. The native result container holds seven
  buffers of double precision numbers, allocated for a requested number of elements. A
  native entry point has no return value and writes into the container it is passed: it
  decides the number at every position of every buffer and cannot change a buffer's
  length. The conversion back makes of each buffer an array of the shape the caller
  gives, in row-major order.
\<close>

type_synonym reflparams = reflDict

definition allfill_reflparams :: "reflDict \<Rightarrow> reflparams" where
  "allfill_reflparams reflparams_py = reflparams_py"

record reflcontainer =
  buf_x :: "pyfloat list"
  buf_y :: "pyfloat list"
  buf_z :: "pyfloat list"
  buf_nx :: "pyfloat list"
  buf_ny :: "pyfloat list"
  buf_nz :: "pyfloat list"
  buf_area :: "pyfloat list"

definition allocate_reflcontainer :: "int \<Rightarrow> reflcontainer" where
  "allocate_reflcontainer n =
     (let zeros = replicate (nat n) (Finite False 0)
      in \<lparr>buf_x = zeros, buf_y = zeros, buf_z = zeros, buf_nx = zeros, buf_ny = zeros,
          buf_nz = zeros, buf_area = zeros\<rparr>)"

definition written :: "(nat \<Rightarrow> pyfloat) \<Rightarrow> pyfloat list \<Rightarrow> pyfloat list" where
  "written values buf = map values [0..<length buf]"

definition native_write :: "(nat \<Rightarrow> nat \<Rightarrow> pyfloat) \<Rightarrow> reflcontainer \<Rightarrow> reflcontainer" where
  "native_write values res =
     \<lparr>buf_x = written (values 0) (buf_x res), buf_y = written (values 1) (buf_y res),
      buf_z = written (values 2) (buf_z res), buf_nx = written (values 3) (buf_nx res),
      buf_ny = written (values 4) (buf_ny res), buf_nz = written (values 5) (buf_nz res),
      buf_area = written (values 6) (buf_area res)\<rparr>"

fun offset :: "nat list \<Rightarrow> nat list \<Rightarrow> nat option" where
  "offset [] [] = Some 0"
| "offset (d # ds) (i # idx) =
     (if i < d then map_option (\<lambda>k. i * prod_list ds + k) (offset ds idx) else None)"
| "offset ds idx = None"

definition to_array :: "pyfloat list \<Rightarrow> nat list \<Rightarrow> pyfloat ndarray" where
  "to_array buf shp =
     \<lparr>nd_shape = shp,
      nd_item = (\<lambda>idx. case offset shp idx of
                          None \<Rightarrow> NaN
                        | Some k \<Rightarrow> if k < length buf then buf ! k else NaN)\<rparr>"

text \<open>
  \<^verbatim>\<open>
  class reflGrids(object):
      def __init__(self, x, y, z, nx, ny, nz, area):
          self.x = x
          self.y = y
          self.z = z
          self.nx = nx
          self.ny = ny
          self.nz = nz
          self.area = area
  \<close>
\<close>

record reflGrids =
  grid_x :: "pyfloat ndarray"
  grid_y :: "pyfloat ndarray"
  grid_z :: "pyfloat ndarray"
  grid_nx :: "pyfloat ndarray"
  grid_ny :: "pyfloat ndarray"
  grid_nz :: "pyfloat ndarray"
  grid_area :: "pyfloat ndarray"

definition creflToObj :: "reflcontainer \<Rightarrow> nat list \<Rightarrow> reflGrids" where
  "creflToObj res shp =
     \<lparr>grid_x = to_array (buf_x res) shp, grid_y = to_array (buf_y res) shp,
      grid_z = to_array (buf_z res) shp, grid_nx = to_array (buf_nx res) shp,
      grid_ny = to_array (buf_ny res) shp, grid_nz = to_array (buf_nz res) shp,
      grid_area = to_array (buf_area res) shp\<rparr>"

definition cweightsToObj :: "pyfloat list \<Rightarrow> nat list \<Rightarrow> pyfloat ndarray" where
  "cweightsToObj buf shp = to_array buf shp"

text \<open>
  The loaded library: its two entry points, each present or not. An entry point is
  given the parameter record and the flags, and decides what it writes where (buffer
  number, position).
\<close>

record engine =
  entry_generateGrid :: "(reflparams \<Rightarrow> bool \<Rightarrow> bool \<Rightarrow> nat \<Rightarrow> nat \<Rightarrow> pyfloat) option"
  entry_generatePOGrid :: "(reflparams \<Rightarrow> bool \<Rightarrow> nat \<Rightarrow> nat \<Rightarrow> pyfloat) option"

text \<open>
  \<^verbatim>\<open>
  def loadRefllib():
      path_cur = pathlib.Path(__file__).parent.resolve()
      try:
          lib = ctypes.CDLL(os.path.join(path_cur, "pyporefl.dll"))
      except:
          try:
              lib = ctypes.CDLL(os.path.join(path_cur, "libpyporefl.so"))
          except:
              lib = ctypes.CDLL(os.path.join(path_cur, "libpyporefl.dylib"))
      return lib
  \<close>
  The file system is a function from the file names in the module's directory to what
  loading each gives (\<open>None\<close>: \<open>ctypes.CDLL\<close> raises \<open>OSError\<close>).
\<close>

definition loadRefllib :: "(string \<Rightarrow> engine option) \<Rightarrow> (py_error + engine) \<times> event list" where
  "loadRefllib files =
     (case files ''pyporefl.dll'' of
        Some lib \<Rightarrow> (Inr lib, [CDLL ''pyporefl.dll''])
      | None \<Rightarrow>
          (case files ''libpyporefl.so'' of
             Some lib \<Rightarrow> (Inr lib, [CDLL ''pyporefl.dll'', CDLL ''libpyporefl.so''])
           | None \<Rightarrow>
               (case files ''libpyporefl.dylib'' of
                  Some lib \<Rightarrow>
                    (Inr lib, [CDLL ''pyporefl.dll'', CDLL ''libpyporefl.so'',
                               CDLL ''libpyporefl.dylib''])
                | None \<Rightarrow>
                    (Inl (OSError ''libpyporefl.dylib: cannot open shared object file''),
                     [CDLL ''pyporefl.dll'', CDLL ''libpyporefl.so'',
                      CDLL ''libpyporefl.dylib'']))))"

text \<open>
  \<^verbatim>\<open>
  def generateGrid(reflparams_py, transform=True, spheric=True):
      lib = loadRefllib()
      size = reflparams_py["gridsize"][0] * reflparams_py["gridsize"][1]
      inp = PStructs.reflparams()
      res = PStructs.reflcontainer()
      BUtils.allfill_reflparams(inp, reflparams_py, ctypes.c_double)
      BUtils.allocate_reflcontainer(res, size, ctypes.c_double)
      lib.generateGrid.argtypes = [PStructs.reflparams, ctypes.POINTER(PStructs.reflcontainer),
                                  ctypes.c_bool, ctypes.c_bool]
      lib.generateGrid.restype = None
      lib.generateGrid(inp, ctypes.byref(res), transform, spheric)
      grids = BUtils.creflToObj(res, reflparams_py["gridsize"], np.float64)
      return grids
  \<close>
\<close>

definition shape_of :: "pyval \<Rightarrow> nat list" where
  "shape_of v = (case v of VTuple xs \<Rightarrow> map nat xs | VInt n \<Rightarrow> [nat n] | VStr t \<Rightarrow> [])"

definition generateGrid ::
  "(string \<Rightarrow> engine option) \<Rightarrow> reflDict \<Rightarrow> bool \<Rightarrow> bool \<Rightarrow> (py_error + reflGrids) \<times> event list" where
  "generateGrid files reflparams_py transform spheric =
     (case loadRefllib files of
        (Inl e, evs) \<Rightarrow> (Inl e, evs)
      | (Inr lib, evs) \<Rightarrow>
          (case reflparams_py ''gridsize'' of
             None \<Rightarrow> (Inl (KeyError ''gridsize''), evs)
           | Some gridsize \<Rightarrow>
               (case pair_product gridsize of
                  Inl e \<Rightarrow> (Inl e, evs)
                | Inr size_n \<Rightarrow>
                    (let inp = allfill_reflparams reflparams_py;
                         res = allocate_reflcontainer size_n
                     in case entry_generateGrid lib of
                          None \<Rightarrow> (Inl (AttributeError ''undefined symbol: generateGrid''), evs)
                        | Some entry \<Rightarrow>
                            (Inr (creflToObj (native_write (entry inp transform spheric) res)
                                    (shape_of gridsize)),
                             evs @ [NativeCall ''generateGrid''])))))"

text \<open>
  \<^verbatim>\<open>
  def generatePOGrid(reflparams_py, transform=True):
      lib = loadRefllib()
      if "po_points" not in reflparams_py:
          raise ValueError(f'"po_points" not defined on {reflparams_py["name"]}. Cannot generate PO grid.')
      size = reflparams_py["po_points"][0] * reflparams_py["po_points"][1]
      inp = PStructs.reflparams()
      res = PTypes.po_grids()
      BUtils.allfill_reflparams(inp, reflparams_py, ctypes.c_double)
      BUtils.allocate_reflcontainer(res, size, ctypes.c_double)
      lib.generatePOGrid.argtypes = [PStructs.reflparams, ctypes.POINTER(PStructs.reflcontainer),
                                  ctypes.c_bool]
      lib.generatePOGrid.restype = None
      lib.generatePOGrid(inp, ctypes.byref(res), transform)
      res.grid = BUtils.creflToObj(res[0], size, np.float64)
      res.weights = BUtils.cweightsToObj(res[1], reflparams_py["po_points"], np.int)
      res.mode = reflparams_py["gmode"]
      res.surf = reflparams_py["name"]
      return res
  \<close>
  \<open>PTypes\<close> is the module \<open>PyPO.PyPOTypes\<close>. The names it defines are its eight classes;
  looking up any other name on it raises \<open>AttributeError\<close>.
\<close>

definition PyPOTypes_names :: "string list" where
  "PyPOTypes_names =
     [''resContainer'', ''currents'', ''fields'', ''po_currents'', ''rfield'', ''scalarfield'',
      ''reflGrids'', ''frame'']"

definition PTypes_getattr :: "string \<Rightarrow> py_error + string" where
  "PTypes_getattr name =
     (if name \<in> set PyPOTypes_names then Inr name
      else Inl (AttributeError (''module PyPO.PyPOTypes has no attribute '' @ name)))"

definition po_points_message :: "pyval \<Rightarrow> string" where
  "po_points_message name =
     [CHR 0x22] @ ''po_points'' @ [CHR 0x22] @ '' not defined on '' @ py_str name
       @ ''. Cannot generate PO grid.''"

text \<open>
  Modelled from the spec: the PO-grid object and what the lines after the construction of
  \<open>res\<close> make of it, since no class \<open>po_grids\<close> is among the sources. The object bundles
  the grid, converted flat for the point count, the weights, shaped according to
  \<open>po_points\<close>, the mode from \<open>gmode\<close> and the surface name from \<open>name\<close>.
\<close>

record po_grids =
  po_grid :: reflGrids
  po_weights :: "pyfloat ndarray"
  po_mode :: pyval
  po_surf :: pyval

definition fill_po_grids ::
  "engine \<Rightarrow> reflDict \<Rightarrow> bool \<Rightarrow> pyval \<Rightarrow> int \<Rightarrow> event list \<Rightarrow> (py_error + po_grids) \<times> event list" where
  "fill_po_grids lib reflparams_py transform po_points size_n evs =
     (let inp = allfill_reflparams reflparams_py;
          res = allocate_reflcontainer size_n;
          wts = replicate (nat size_n) (Finite False 0)
      in case entry_generatePOGrid lib of
           None \<Rightarrow> (Inl (AttributeError ''undefined symbol: generatePOGrid''), evs)
         | Some entry \<Rightarrow>
             (let evs' = evs @ [NativeCall ''generatePOGrid''];
                  grid = creflToObj (native_write (entry inp transform) res) [nat size_n];
                  weights = cweightsToObj (written (entry inp transform 7) wts)
                              (shape_of po_points)
              in case reflparams_py ''gmode'' of
                   None \<Rightarrow> (Inl (KeyError ''gmode''), evs')
                 | Some gmode \<Rightarrow>
                     (case reflparams_py ''name'' of
                        None \<Rightarrow> (Inl (KeyError ''name''), evs')
                      | Some name \<Rightarrow>
                          (Inr \<lparr>po_grid = grid, po_weights = weights, po_mode = gmode,
                                po_surf = name\<rparr>, evs'))))"

definition generatePOGrid ::
  "(string \<Rightarrow> engine option) \<Rightarrow> reflDict \<Rightarrow> bool \<Rightarrow> (py_error + po_grids) \<times> event list" where
  "generatePOGrid files reflparams_py transform =
     (case loadRefllib files of
        (Inl e, evs) \<Rightarrow> (Inl e, evs)
      | (Inr lib, evs) \<Rightarrow>
          (case reflparams_py ''po_points'' of
             None \<Rightarrow>
               (case reflparams_py ''name'' of
                  None \<Rightarrow> (Inl (KeyError ''name''), evs)
                | Some name \<Rightarrow> (Inl (ValueError (po_points_message name)), evs))
           | Some po_points \<Rightarrow>
               (case pair_product po_points of
                  Inl e \<Rightarrow> (Inl e, evs)
                | Inr size_n \<Rightarrow>
                    (case PTypes_getattr ''po_grids'' of
                       Inl e \<Rightarrow> (Inl e, evs)
                     | Inr cls \<Rightarrow>
                         fill_po_grids lib reflparams_py transform po_points size_n evs))))"


text \<open>The seven arrays of a reflector grid, in the order of the constructor.\<close>

definition seven_arrays :: "reflGrids \<Rightarrow> pyfloat ndarray list" where
  "seven_arrays g = [grid_x g, grid_y g, grid_z g, grid_nx g, grid_ny g, grid_nz g, grid_area g]"


section \<open>PyPOTypes.py: fields and currents\<close>

text \<open>
  \<^verbatim>\<open>
  class currents(resContainer):
      def __init__(self, Jx, Jy, Jz, Mx, My, Mz):
          super().__init__(Jx, Jy, Jz, Mx, My, Mz, restype="JM")

  class fields(resContainer):
      def __init__(self, Ex, Ey, Ez, Hx, Hy, Hz):
          super().__init__(Ex, Ey, Ez, Hx, Hy, Hz, restype="EH")
  \<close>
\<close>

definition currents ::
  "complex ndarray \<Rightarrow> complex ndarray \<Rightarrow> complex ndarray \<Rightarrow> complex ndarray \<Rightarrow> complex ndarray \<Rightarrow> complex ndarray \<Rightarrow> py_error + resContainer" where
  "currents J_x J_y J_z M_x M_y M_z = resContainer_init [J_x, J_y, J_z, M_x, M_y, M_z] (Some ''JM'')"

definition fields ::
  "complex ndarray \<Rightarrow> complex ndarray \<Rightarrow> complex ndarray \<Rightarrow> complex ndarray \<Rightarrow> complex ndarray \<Rightarrow> complex ndarray \<Rightarrow> py_error + resContainer" where
  "fields E_x E_y E_z H_x H_y H_z = resContainer_init [E_x, E_y, E_z, H_x, H_y, H_z] (Some ''EH'')"


section \<open>Example inputs\<close>

text \<open>
  Two version lines: the spec's example \<open>__version__ = '2.4.1'\<close>, and a line with a
  second \<open>=\<close> after the marker, \<open>__version__ = "1.0"  # tag=beta\<close>.
\<close>

definition example_version_line :: string where
  "example_version_line = ''__version__ = '' @ [CHR 0x27] @ ''2.4.1'' @ [CHR 0x27, CHR 0x0A]"

definition tagged_version_line :: string where
  "tagged_version_line =
     ''__version__ = '' @ [CHR 0x22] @ ''1.0'' @ [CHR 0x22] @ ''  # tag=beta'' @ [CHR 0x0A]"

text \<open>
  Arrays of any shape with distinguishable contents, and the fields object built from six
  of them whose shapes all differ from one another except the first and fourth.
\<close>

definition example_array :: "nat \<Rightarrow> nat list \<Rightarrow> complex ndarray" where
  "example_array tag shp =
     \<lparr>nd_shape = shp,
      nd_item = (\<lambda>idx. Complex (of_nat (tag + sum_list idx)) (of_nat (length idx)))\<rparr>"

definition example_fields :: resContainer where
  "example_fields =
     \<lparr>type_tag = ''EH'', memlist = [''Ex'', ''Ey'', ''Ez'', ''Hx'', ''Hy'', ''Hz''],
      shape = [2, 3], size_c = 6,
      attrs = [''Ex'' \<mapsto> example_array 0 [2, 3], ''Ey'' \<mapsto> example_array 1 [4],
               ''Ez'' \<mapsto> example_array 2 [3, 2], ''Hx'' \<mapsto> example_array 3 [2, 3],
               ''Hy'' \<mapsto> example_array 4 [], ''Hz'' \<mapsto> example_array 5 [7, 1, 2]],
      meta_surf = None, meta_k = None\<rparr>"

text \<open>
  A library with both entry points, found under the Unix name only; a directory with none
  of the three files; a reflector record with a grid size of 4 by 5 and no \<open>po_points\<close>;
  and one with \<open>po_points\<close> and \<open>gmode\<close> as well.
\<close>

definition example_engine :: engine where
  "example_engine =
     \<lparr>entry_generateGrid = Some (\<lambda>inp transform spheric k i. Finite False (of_nat (k + i))),
      entry_generatePOGrid = Some (\<lambda>inp transform k i. Finite False (of_nat i))\<rparr>"

definition example_files :: "string \<Rightarrow> engine option" where
  "example_files name = (if name = ''libpyporefl.so'' then Some example_engine else None)"

definition no_files :: "string \<Rightarrow> engine option" where
  "no_files name = None"

definition example_reflector :: reflDict where
  "example_reflector = [''name'' \<mapsto> VStr ''primary'', ''gridsize'' \<mapsto> VTuple [4, 5]]"

definition example_po_reflector :: reflDict where
  "example_po_reflector =
     [''name'' \<mapsto> VStr ''primary'', ''gridsize'' \<mapsto> VTuple [4, 5],
      ''po_points'' \<mapsto> VTuple [3, 3], ''gmode'' \<mapsto> VStr ''uv'']"


section \<open>Version resolution: the result of the scan\<close>

lemma split_on_nonempty: "split_on sep s \<noteq> []"
  by (induction s) (auto split: list.splits)

lemma split_on_notin: "sep \<notin> set s \<Longrightarrow> split_on sep s = [s]"
  by (induction s) (auto split: list.splits)

lemma split_on_append:
  "split_on sep (xs @ sep # ys) = split_on sep xs @ split_on sep ys"
  by (induction xs) (auto simp: split_on_nonempty split: list.splits)

lemma takeWhile_until:
  "sep \<notin> set ys \<Longrightarrow> takeWhile (\<lambda>x. x \<noteq> sep) (ys @ sep # zs) = ys"
  by (induction ys) auto

lemma after_last_notin: "sep \<notin> set s \<Longrightarrow> after_last sep s = s"
proof -
  assume "sep \<notin> set s"
  then have "takeWhile (\<lambda>x. x \<noteq> sep) (rev s) = rev s"
    by (auto simp add: takeWhile_eq_all_conv)
  then show ?thesis unfolding after_last_def by (simp only: rev_rev_ident)
qed

lemma after_last_append:
  assumes "sep \<notin> set ys"
  shows "after_last sep (xs @ sep # ys) = ys"
proof -
  have "rev (xs @ sep # ys) = rev ys @ sep # rev xs" by simp
  moreover have "takeWhile (\<lambda>x. x \<noteq> sep) (rev ys @ sep # rev xs) = rev ys"
    using assms by (simp add: takeWhile_until)
  ultimately show ?thesis by (simp add: after_last_def)
qed

lemma last_split_on: "last (split_on sep s) = after_last sep s"
proof (cases "sep \<in> set s")
  case False
  then show ?thesis by (simp add: split_on_notin after_last_notin)
next
  case True
  then have "sep \<in> set (rev s)" by simp
  then obtain ys zs where r: "rev s = ys @ sep # zs" and n: "sep \<notin> set ys"
    by (meson split_list_first)
  have "rev (rev s) = rev zs @ sep # rev ys" by (simp add: r)
  then have s: "s = rev zs @ sep # rev ys" by simp
  have "last (split_on sep s) = rev ys"
    using n by (simp add: s split_on_append split_on_nonempty split_on_notin)
  moreover have "after_last sep s = rev ys"
    using n by (simp add: s after_last_append)
  ultimately show ?thesis by simp
qed

lemma scan_lines_none: "\<forall>l\<in>set lines. \<not> contains marker l \<Longrightarrow> scan_lines lines v = v"
  by (induction lines) auto

lemma scan_lines_first:
  "\<forall>l\<in>set pre. \<not> contains marker l \<Longrightarrow> contains marker line \<Longrightarrow>
   scan_lines (pre @ line # post) v = version_of_line line"
  by (induction pre) auto

lemma startswith_prefix: "startswith s pat \<longleftrightarrow> prefix pat s"
  by (induction s pat rule: startswith.induct) auto

lemma contains_sublist: "contains pat s \<longleftrightarrow> sublist pat s"
  by (induction s) (auto simp: startswith_prefix sublist_Cons_right)

lemma after_first_decomp:
  "contains pat s \<Longrightarrow> \<exists>pre. s = pre @ pat @ after_first pat s"
proof (induction s)
  case Nil
  then show ?case by simp
next
  case (Cons c cs)
  show ?case
  proof (cases "startswith (c # cs) pat")
    case True
    then obtain r where "c # cs = pat @ r" by (auto simp: startswith_prefix prefix_def)
    then have "c # cs = [] @ pat @ drop (length pat) (c # cs)" by simp
    with True show ?thesis by (metis after_first.simps(2))
  next
    case False
    with Cons obtain pre where "cs = pre @ pat @ after_first pat cs" by auto
    then have "c # cs = (c # pre) @ pat @ after_first pat cs" by simp
    with False show ?thesis by (metis after_first.simps(2))
  qed
qed

lemma after_last_after_first_marker:
  assumes "contains marker line" and "CHR ''='' \<notin> set (after_first marker line)"
  shows "after_last CHR ''='' line = after_first marker line"
proof -
  from assms(1) obtain pre where "line = pre @ marker @ after_first marker line"
    using after_first_decomp by blast
  then have "line = (pre @ ''__version__ '') @ CHR ''='' # after_first marker line"
    by (simp add: marker_def)
  then show ?thesis using assms(2) after_last_append by metis
qed

text \<open>
  C5 (as amended). The scan returns \<open>0.0.0\<close> when no line contains the marker. Otherwise
  the first line containing the marker decides, and the version is the text after the
  LAST \<open>=\<close> of that line, stripped of surrounding whitespace and then of surrounding
  quote characters. Where nothing after the marker contains a further \<open>=\<close>, this is the
  text after the marker's \<open>=\<close>, as the spec words it.
\<close>

theorem version_resolution:
  "((\<forall>l\<in>set lines. \<not> contains marker l) \<longrightarrow> version lines = ''0.0.0'') \<and>
   ((\<forall>l\<in>set pre. \<not> contains marker l) \<and> contains marker line \<longrightarrow>
      version (pre @ line # post) =
        strip_chars quote_chars (strip (after_last CHR ''='' line))) \<and>
   ((\<forall>l\<in>set pre. \<not> contains marker l) \<and> contains marker line \<and>
      CHR ''='' \<notin> set (after_first marker line) \<longrightarrow>
      version (pre @ line # post) = spec_version_of_line line)"
proof (intro conjI impI)
  assume "\<forall>l\<in>set lines. \<not> contains marker l"
  then show "version lines = ''0.0.0''"
    by (simp add: version_def scan_lines_none default_v_def)
next
  assume "(\<forall>l\<in>set pre. \<not> contains marker l) \<and> contains marker line"
  then show "version (pre @ line # post) =
      strip_chars quote_chars (strip (after_last CHR ''='' line))"
    by (simp add: version_def scan_lines_first version_of_line_def last_split_on)
next
  assume a: "(\<forall>l\<in>set pre. \<not> contains marker l) \<and> contains marker line \<and>
      CHR ''='' \<notin> set (after_first marker line)"
  then have "version (pre @ line # post) = version_of_line line"
    by (simp add: version_def scan_lines_first)
  also have "\<dots> = spec_version_of_line line"
    using a by (simp add: version_of_line_def spec_version_of_line_def last_split_on
        after_last_after_first_marker)
  finally show "version (pre @ line # post) = spec_version_of_line line" .
qed

theorem version_resolution_witness:
  "version [''import os'' @ [CHR 0x0A]] = ''0.0.0'' \<and>
   version ([''import os'' @ [CHR 0x0A]] @ example_version_line # [''x = 1'' @ [CHR 0x0A]])
     = ''2.4.1'' \<and>
   spec_version_of_line example_version_line = ''2.4.1''"
  using version_resolution [of "[''import os'' @ [CHR 0x0A]]" "[''import os'' @ [CHR 0x0A]]"
      example_version_line "[''x = 1'' @ [CHR 0x0A]]"]
  by (simp add: marker_def example_version_line_def strip_def strip_chars_def whitespace_def
      quote_chars_def after_last_def spec_version_of_line_def)

theorem version_after_marker_counterexample:
  "contains marker tagged_version_line \<and>
   version [tagged_version_line] = ''beta'' \<and>
   spec_version_of_line tagged_version_line = ''1.0'' @ [CHR 0x22] @ ''  # tag=beta'' \<and>
   version [tagged_version_line] \<noteq> spec_version_of_line tagged_version_line"
  by (simp add: marker_def tagged_version_line_def version_def version_of_line_def
      spec_version_of_line_def strip_def strip_chars_def whitespace_def quote_chars_def)

section \<open>The result containers: access, transposes, construction\<close>

lemma py_index_in: "0 \<le> i \<Longrightarrow> i < int (length xs) \<Longrightarrow> py_index xs i = Some (xs ! nat i)"
  by (simp add: py_index_def)

lemma py_index_nat: "i < length xs \<Longrightarrow> py_index xs (int i) = Some (xs ! i)"
  by (simp add: py_index_def)

lemma py_index_neg: "- int (length xs) \<le> i \<Longrightarrow> i < 0 \<Longrightarrow> py_index xs i = Some (xs ! nat (int (length xs) + i))"
  by (simp add: py_index_def)

lemma py_index_out: "i < - int (length xs) \<or> int (length xs) \<le> i \<Longrightarrow> py_index xs i = None"
  by (auto simp add: py_index_def)

lemma py_index_Some_mem: "py_index xs i = Some x \<Longrightarrow> x \<in> set xs"
  by (auto simp: py_index_def split: if_splits)

lemma ndarray_T_T: "ndarray_T (ndarray_T a) = a"
  by (simp add: ndarray_T_def)

lemma ndarray_conj_conj: "ndarray_conj (ndarray_conj a) = a"
  by (simp add: ndarray_conj_def)

lemma ndarray_H_H: "ndarray_T (ndarray_conj (ndarray_T (ndarray_conj a))) = a"
  by (simp add: ndarray_T_def ndarray_conj_def)

lemma component_loop_map:
  "set is \<subseteq> {..<length (memlist c)} \<Longrightarrow> distinct (map (\<lambda>i. memlist c ! i) is) \<Longrightarrow>
   (\<forall>i\<in>set is. memlist c ! i \<in> dom (attrs c)) \<Longrightarrow>
   component_loop f is c =
     Inr (c\<lparr>attrs := (\<lambda>l. if l \<in> (\<lambda>i. memlist c ! i) ` set is
                          then map_option f (attrs c l) else attrs c l)\<rparr>)"
proof (induction "is" arbitrary: c)
  case Nil
  then show ?case by simp
next
  case (Cons i rest)
  let ?l = "memlist c ! i"
  from Cons.prems have i: "i < length (memlist c)" by simp
  from Cons.prems obtain a where a: "attrs c ?l = Some a" by auto
  let ?c' = "c\<lparr>attrs := (attrs c)(?l \<mapsto> f a)\<rparr>"
  have g: "getitem c (int i) = Inr a" using i a by (simp add: getitem_def py_index_nat)
  have s: "setitem c (int i) (f a) = Inr ?c'" using i by (simp add: setitem_def py_index_nat)
  have step: "component_loop f (i # rest) c = component_loop f rest ?c'"
    by (simp add: g s)
  have "component_loop f rest ?c' =
     Inr (?c'\<lparr>attrs := (\<lambda>l. if l \<in> (\<lambda>i. memlist ?c' ! i) ` set rest
                          then map_option f (attrs ?c' l) else attrs ?c' l)\<rparr>)"
    using Cons.prems by (intro Cons.IH) auto
  also have "\<dots> = Inr (c\<lparr>attrs := (\<lambda>l. if l \<in> (\<lambda>i. memlist c ! i) ` set (i # rest)
                          then map_option f (attrs c l) else attrs c l)\<rparr>)"
    using Cons.prems a by (auto simp: fun_eq_iff)
  finally show ?case using step by simp
qed

lemma image_nth_upt: "(\<lambda>i. xs ! i) ` set [0..<length xs] = set xs"
  by (metis list.set_map map_nth)

lemma component_loop_all:
  assumes d: "distinct (memlist c)" and b: "set (memlist c) \<subseteq> dom (attrs c)"
  shows "component_loop f [0..<length (memlist c)] c = Inr (map_components f c)"
proof -
  have "component_loop f [0..<length (memlist c)] c =
     Inr (c\<lparr>attrs := (\<lambda>l. if l \<in> (\<lambda>i. memlist c ! i) ` set [0..<length (memlist c)]
                          then map_option f (attrs c l) else attrs c l)\<rparr>)"
  proof (rule component_loop_map)
    show "set [0..<length (memlist c)] \<subseteq> {..<length (memlist c)}" by auto
    show "distinct (map (\<lambda>i. memlist c ! i) [0..<length (memlist c)])"
      using d by (simp only: map_nth)
    show "\<forall>i\<in>set [0..<length (memlist c)]. memlist c ! i \<in> dom (attrs c)"
      using b nth_mem by (fastforce simp: dom_def subset_iff)
  qed
  then show ?thesis by (simp only: image_nth_upt map_components_def)
qed

lemma component_loop_six:
  assumes "six_components c"
  shows "component_loop f [0..<6] c = Inr (map_components f c)"
proof -
  have len: "length (memlist c) = 6" and d: "distinct (memlist c)"
    and b: "set (memlist c) \<subseteq> dom (attrs c)"
    using assms by (auto simp: six_components_def)
  show ?thesis using component_loop_all [OF d b, of f] by (simp only: len)
qed

lemma six_components_map: "six_components c \<Longrightarrow> six_components (map_components f c)"
  by (auto simp: six_components_def map_components_def dom_def)

lemma map_components_inverse:
  assumes "\<And>a. g (f a) = a"
  shows "map_components g (map_components f c) = c"
proof (rule resContainer.equality)
  show "attrs (map_components g (map_components f c)) = attrs c"
    by (auto simp: map_components_def fun_eq_iff assms option.map_comp comp_def option.map_ident)
qed (simp_all add: map_components_def)

lemma init_six:
  "resContainer_init [a0, a1, a2, a3, a4, a5] (Some (t0 # t1 # ts)) =
     (case nd_shape a0 of
        rows # cols # rest \<Rightarrow>
          Inr \<lparr>type_tag = t0 # t1 # ts,
               memlist = [t0 # ''x'', t0 # ''y'', t0 # ''z'', t1 # ''x'', t1 # ''y'', t1 # ''z''],
               shape = nd_shape a0, size_c = rows * cols,
               attrs = [t0 # ''x'' \<mapsto> a0, t0 # ''y'' \<mapsto> a1, t0 # ''z'' \<mapsto> a2,
                        t1 # ''x'' \<mapsto> a3, t1 # ''y'' \<mapsto> a4, t1 # ''z'' \<mapsto> a5],
               meta_surf = None, meta_k = None\<rparr>
      | _ \<Rightarrow> Inl (IndexError ''tuple index out of range''))"
  by (simp add: resContainer_init_def py_index_def ax_def split: list.splits)

lemma constructed_six_components:
  assumes "resContainer_init [a0, a1, a2, a3, a4, a5] (Some (t0 # t1 # ts)) = Inr c"
    and "t0 \<noteq> t1"
  shows "six_components c"
  using assms by (auto simp: init_six six_components_def split: list.splits)

lemma fields_six_components:
  "fields E_x E_y E_z H_x H_y H_z = Inr c \<Longrightarrow> six_components c"
  using constructed_six_components [of E_x E_y E_z H_x H_y H_z "CHR ''E''" "CHR ''H''" "[]" c]
  by (simp add: fields_def)

lemma currents_six_components:
  "currents J_x J_y J_z M_x M_y M_z = Inr c \<Longrightarrow> six_components c"
  using constructed_six_components [of J_x J_y J_z M_x M_y M_z "CHR ''J''" "CHR ''M''" "[]" c]
  by (simp add: currents_def)

lemma example_fields_built:
  "fields (example_array 0 [2, 3]) (example_array 1 [4]) (example_array 2 [3, 2])
     (example_array 3 [2, 3]) (example_array 4 []) (example_array 5 [7, 1, 2]) = Inr example_fields"
  by (simp add: fields_def init_six example_fields_def example_array_def)

lemma example_six: "six_components example_fields"
  by (simp add: six_components_def example_fields_def)

text \<open>
  C4 (as amended). On a container of six components, positional access succeeds for every
  index from \<open>-6\<close> to \<open>5\<close> (a negative index counts from the end of the member list), and
  for every other index both get and set fail with the IndexError whose message is
  \<open>Index out of range: \<close> followed by the index.
\<close>

theorem positional_access:
  assumes "six_components c"
  shows "(- 6 \<le> idx \<and> idx < 6 \<longrightarrow>
            (\<exists>a. getitem c idx = Inr a) \<and>
            setitem c idx item =
              Inr (c\<lparr>attrs := (attrs c)(memlist c ! nat (if idx < 0 then 6 + idx else idx) \<mapsto> item)\<rparr>)) \<and>
         (idx < - 6 \<or> 6 \<le> idx \<longrightarrow>
            getitem c idx = Inl (IndexError (''Index out of range: '' @ str_int idx)) \<and>
            setitem c idx item = Inl (IndexError (''Index out of range: '' @ str_int idx)))"
proof (intro conjI impI)
  have len: "length (memlist c) = 6" and b: "set (memlist c) \<subseteq> dom (attrs c)"
    using assms by (auto simp: six_components_def)
  {
    assume r: "- 6 \<le> idx \<and> idx < 6"
    let ?j = "nat (if idx < 0 then 6 + idx else idx)"
    have i: "py_index (memlist c) idx = Some (memlist c ! ?j)"
      using r len by (auto simp: py_index_def)
    have "?j < length (memlist c)" using len r by auto
    then have "memlist c ! ?j \<in> dom (attrs c)" using b nth_mem by blast
    then show "\<exists>a. getitem c idx = Inr a" using i by (auto simp: getitem_def)
    show "setitem c idx item =
              Inr (c\<lparr>attrs := (attrs c)(memlist c ! nat (if idx < 0 then 6 + idx else idx) \<mapsto> item)\<rparr>)"
      using i by (simp add: setitem_def)
  }
  {
    assume r: "idx < - 6 \<or> 6 \<le> idx"
    then have i: "py_index (memlist c) idx = None" using len by (intro py_index_out) auto
    show "getitem c idx = Inl (IndexError (''Index out of range: '' @ str_int idx))"
      using i by (simp add: getitem_def index_message_def)
    show "setitem c idx item = Inl (IndexError (''Index out of range: '' @ str_int idx))"
      using i by (simp add: setitem_def index_message_def)
  }
qed

theorem positional_access_witness:
  "six_components example_fields \<and>
   getitem example_fields 3 = Inr (example_array 3 [2, 3]) \<and>
   getitem example_fields (- 6) = Inr (example_array 0 [2, 3]) \<and>
   getitem example_fields 6 = Inl (IndexError ''Index out of range: 6'') \<and>
   setitem example_fields (- 7) (example_array 9 [1, 1]) = Inl (IndexError ''Index out of range: -7'')"
  using positional_access [OF example_six, of 6 "example_array 9 [1, 1]"]
    positional_access [OF example_six, of "- 7" "example_array 9 [1, 1]"]
    example_six
  by (simp add: str_int_def str_nat.simps digit_char_def getitem_def py_index_def
      example_fields_def)

text \<open>
  The claim's range \<open>0-5\<close> is too narrow: index \<open>-1\<close> is outside it, and getting it
  returns the last component (\<open>Hz\<close>), setting it replaces that component.
\<close>

theorem negative_index_counterexample:
  "six_components example_fields \<and> (- 1 :: int) \<notin> {0..5} \<and>
   getitem example_fields (- 1) = Inr (example_array 5 [7, 1, 2]) \<and>
   setitem example_fields (- 1) (example_array 9 [1, 1]) =
     Inr (example_fields\<lparr>attrs := (attrs example_fields)(''Hz'' \<mapsto> example_array 9 [1, 1])\<rparr>)"
  using example_six by (simp add: getitem_def setitem_def py_index_def example_fields_def)

text \<open>
  C7. On a container of six components, \<open>T\<close> succeeds and returns the container with every
  one of the six members replaced by its transpose and nothing else changed; applied to
  that result it returns the original container. \<open>H\<close> does the same with the conjugate
  transpose, for complex elements.
\<close>

theorem transpose_involutive:
  assumes "six_components c"
  shows "T c = Inr (map_components ndarray_T c) \<and>
         T (map_components ndarray_T c) = Inr c \<and>
         H c = Inr (map_components (\<lambda>a. ndarray_T (ndarray_conj a)) c) \<and>
         H (map_components (\<lambda>a. ndarray_T (ndarray_conj a)) c) = Inr c"
proof -
  let ?h = "\<lambda>a. ndarray_T (ndarray_conj a)"
  have t1: "T c = Inr (map_components ndarray_T c)"
    using assms by (simp add: T_def component_loop_six)
  have "T (map_components ndarray_T c) = Inr (map_components ndarray_T (map_components ndarray_T c))"
    using six_components_map [OF assms] by (simp add: T_def component_loop_six)
  then have t2: "T (map_components ndarray_T c) = Inr c"
    by (simp add: map_components_inverse ndarray_T_T)
  have h1: "H c = Inr (map_components ?h c)"
    using assms by (simp add: H_def component_loop_six)
  have "H (map_components ?h c) = Inr (map_components ?h (map_components ?h c))"
    using six_components_map [OF assms] by (simp add: H_def component_loop_six)
  then have h2: "H (map_components ?h c) = Inr c"
    by (simp add: map_components_inverse ndarray_H_H)
  from t1 t2 h1 h2 show ?thesis by simp
qed

lemma getitem_map_components:
  assumes "six_components c"
  shows "getitem (map_components f c) idx = map_sum id f (getitem c idx)"
proof (cases "py_index (memlist c) idx")
  case None
  then show ?thesis by (simp add: getitem_def map_components_def)
next
  case (Some l)
  then have "l \<in> set (memlist c)" by (rule py_index_Some_mem)
  then show ?thesis using Some by (simp add: getitem_def map_components_def split: option.splits)
qed

theorem transpose_involutive_witness:
  "six_components example_fields \<and>
   T example_fields = Inr (map_components ndarray_T example_fields) \<and>
   getitem (map_components ndarray_T example_fields) 2 = Inr (ndarray_T (example_array 2 [3, 2])) \<and>
   nd_shape (ndarray_T (example_array 2 [3, 2])) = [2, 3] \<and>
   T (map_components ndarray_T example_fields) = Inr example_fields \<and>
   H (map_components (\<lambda>a. ndarray_T (ndarray_conj a)) example_fields) = Inr example_fields"
  using transpose_involutive [OF example_six] example_six
  by (simp add: getitem_map_components) (simp add: getitem_def py_index_def example_fields_def ndarray_T_def example_array_def)

text \<open>
  C10. With six arrays and a type tag of at least two letters (the default \<open>EH\<close> among
  them), construction succeeds as soon as the first array has two dimensions or more,
  whatever the shapes of the other five; the recorded shape is the first array's and the
  size is the product of its first two extents. With a first array of fewer than two
  dimensions construction fails, with any arguments after it.
\<close>

theorem container_shape_from_first:
  "(2 \<le> length (nd_shape a0) \<and> 2 \<le> length tag \<longrightarrow>
      (\<exists>c. resContainer_init [a0, a1, a2, a3, a4, a5] (Some tag) = Inr c \<and>
           shape c = nd_shape a0 \<and> size_c c = nd_shape a0 ! 0 * nd_shape a0 ! 1 \<and>
           attrs c = [[tag ! 0, CHR ''x''] \<mapsto> a0, [tag ! 0, CHR ''y''] \<mapsto> a1,
                      [tag ! 0, CHR ''z''] \<mapsto> a2, [tag ! 1, CHR ''x''] \<mapsto> a3,
                      [tag ! 1, CHR ''y''] \<mapsto> a4, [tag ! 1, CHR ''z''] \<mapsto> a5])) \<and>
   (length (nd_shape a0) < 2 \<longrightarrow>
      resContainer_init (a0 # others) restype = Inl (IndexError ''tuple index out of range'')) \<and>
   resContainer_init args None = resContainer_init args (Some ''EH'')"
proof (intro conjI impI)
  assume a: "2 \<le> length (nd_shape a0) \<and> 2 \<le> length tag"
  then obtain t0 t1 ts where tag: "tag = t0 # t1 # ts"
    by (metis Suc_le_length_iff numeral_2_eq_2)
  from a obtain rows cols rest where sh: "nd_shape a0 = rows # cols # rest"
    by (metis Suc_le_length_iff numeral_2_eq_2)
  show "\<exists>c. resContainer_init [a0, a1, a2, a3, a4, a5] (Some tag) = Inr c \<and>
           shape c = nd_shape a0 \<and> size_c c = nd_shape a0 ! 0 * nd_shape a0 ! 1 \<and>
           attrs c = [[tag ! 0, CHR ''x''] \<mapsto> a0, [tag ! 0, CHR ''y''] \<mapsto> a1,
                      [tag ! 0, CHR ''z''] \<mapsto> a2, [tag ! 1, CHR ''x''] \<mapsto> a3,
                      [tag ! 1, CHR ''y''] \<mapsto> a4, [tag ! 1, CHR ''z''] \<mapsto> a5]"
    by (simp add: tag init_six sh)
next
  assume "length (nd_shape a0) < 2"
  then have "nd_shape a0 = [] \<or> (\<exists>r. nd_shape a0 = [r])"
    by (cases "nd_shape a0") (auto simp: less_Suc_eq_0_disj length_Suc_conv numeral_2_eq_2)
  then show "resContainer_init (a0 # others) restype = Inl (IndexError ''tuple index out of range'')"
    by (auto simp: resContainer_init_def py_index_def Let_def)
next
  show "resContainer_init args None = resContainer_init args (Some ''EH'')"
    by (simp add: resContainer_init_def)
qed

theorem container_shape_from_first_witness:
  "resContainer_init
     [example_array 0 [2, 3], example_array 1 [4], example_array 2 [3, 2],
      example_array 3 [2, 3], example_array 4 [], example_array 5 [7, 1, 2]] None
     = Inr example_fields \<and>
   shape example_fields = [2, 3] \<and> size_c example_fields = 6 \<and>
   resContainer_init [example_array 0 [5], example_array 1 [2, 3]] None
     = Inl (IndexError ''tuple index out of range'')"
  using container_shape_from_first [of "example_array 0 [2, 3]" "''EH''" "example_array 1 [4]"
      "example_array 2 [3, 2]" "example_array 3 [2, 3]" "example_array 4 []"
      "example_array 5 [7, 1, 2]" "[]" None
      "[example_array 0 [2, 3], example_array 1 [4], example_array 2 [3, 2],
        example_array 3 [2, 3], example_array 4 [], example_array 5 [7, 1, 2]]"]
    container_shape_from_first [of "example_array 0 [5]" "''EH''" "example_array 1 [4]"
      "example_array 2 [3, 2]" "example_array 3 [2, 3]" "example_array 4 []"
      "example_array 5 [7, 1, 2]" "[example_array 1 [2, 3]]" None "[]"]
  by (simp add: init_six example_fields_def example_array_def)

section \<open>Floats: the rounding function\<close>

lemma powi2_less_iff: "(2::rat) powi a < 2 powi b \<longleftrightarrow> a < b"
proof
  assume l: "(2::rat) powi a < 2 powi b"
  show "a < b"
  proof (rule ccontr)
    assume "\<not> a < b"
    then have "b \<le> a" by simp
    then have "(2::rat) powi b \<le> 2 powi a" by (intro power_int_increasing) simp_all
    with l show False by simp
  qed
next
  assume "a < b"
  then show "(2::rat) powi a < 2 powi b" by (intro power_int_strict_increasing) simp_all
qed

lemma powi2_le_iff: "(2::rat) powi a \<le> 2 powi b \<longleftrightarrow> a \<le> b"
  using powi2_less_iff [of b a] by (auto simp: not_less [symmetric])

lemma of_int_bitlen_bounds:
  assumes "0 < n"
  shows "(2::rat) powi (bitlen n - 1) \<le> of_int n" and "of_int n < (2::rat) powi (bitlen n)"
proof -
  from bitlen_bounds [OF assms]
  have lo: "2 ^ nat (bitlen n - 1) \<le> n" and hi: "n < 2 ^ nat (bitlen n)" by auto
  have b1: "1 \<le> bitlen n" using assms by (simp add: bitlen_alt_def)
  have "(2::rat) powi (bitlen n - 1) = 2 ^ nat (bitlen n - 1)"
    using b1 by (simp add: power_int_nonneg_exp)
  also have "\<dots> = of_int (2 ^ nat (bitlen n - 1))" by simp
  also have "\<dots> \<le> of_int n" using lo by (simp only: of_int_le_iff)
  finally show "(2::rat) powi (bitlen n - 1) \<le> of_int n" .
  have "(of_int n :: rat) < of_int (2 ^ nat (bitlen n))" using hi by (simp only: of_int_less_iff)
  also have "\<dots> = 2 ^ nat (bitlen n)" by simp
  also have "\<dots> = 2 powi (bitlen n)" using b1 by (simp add: power_int_nonneg_exp)
  finally show "of_int n < (2::rat) powi (bitlen n)" .
qed

lemma ilog2_bounds:
  assumes "0 < q"
  shows "2 powi (ilog2 q) \<le> q" and "q < 2 powi (ilog2 q + 1)"
proof -
  obtain n d where nd: "quotient_of q = (n, d)" by (cases "quotient_of q")
  then have d: "0 < d" by (rule quotient_of_denom_pos)
  have q: "q = of_int n / of_int d" using nd by (rule quotient_of_div)
  have n: "0 < n" using assms d q by (simp add: zero_less_divide_iff)
  let ?e = "bitlen n - bitlen d"
  have up: "q < 2 powi (?e + 1)"
  proof -
    have "q < 2 powi (bitlen n) / of_int d"
      unfolding q using of_int_bitlen_bounds(2) [OF n] d by (simp add: divide_strict_right_mono)
    also have "\<dots> \<le> 2 powi (bitlen n) / 2 powi (bitlen d - 1)"
      using of_int_bitlen_bounds(1) [OF d] by (intro frac_le) simp_all
    also have "\<dots> = 2 powi (?e + 1)"
      by (simp add: power_int_diff [symmetric] algebra_simps)
    finally show ?thesis .
  qed
  have lo: "2 powi (?e - 1) < q"
  proof -
    have "(2::rat) powi (?e - 1) = 2 powi (bitlen n - 1) / 2 powi (bitlen d)"
      by (simp add: power_int_diff [symmetric] algebra_simps)
    also have "\<dots> \<le> of_int n / 2 powi (bitlen d)"
      using of_int_bitlen_bounds(1) [OF n] by (simp add: divide_right_mono)
    also have "\<dots> < of_int n / of_int d"
      using of_int_bitlen_bounds(2) [OF d] n d by (simp add: divide_strict_left_mono)
    finally show ?thesis by (simp add: q)
  qed
  have il: "ilog2 q = (if 2 powi ?e \<le> q then ?e else ?e - 1)"
    by (simp add: ilog2_def nd Let_def)
  show "2 powi (ilog2 q) \<le> q" using lo by (auto simp: il)
  show "q < 2 powi (ilog2 q + 1)" using up by (auto simp: il not_le)
qed

lemma ilog2_unique:
  assumes "0 < q" and "2 powi e \<le> q" and "q < 2 powi (e + 1)"
  shows "ilog2 q = e"
proof -
  have "(2::rat) powi e < 2 powi (ilog2 q + 1)"
    using assms(2) ilog2_bounds(2) [OF assms(1)] by simp
  then have a: "e < ilog2 q + 1" by (simp only: powi2_less_iff)
  have "(2::rat) powi (ilog2 q) < 2 powi (e + 1)"
    using assms(3) ilog2_bounds(1) [OF assms(1)] by simp
  then have "ilog2 q < e + 1" by (simp only: powi2_less_iff)
  with a show ?thesis by simp
qed

lemma round_half_even_error: "\<bar>of_int (round_half_even x) - x\<bar> \<le> 1 / 2"
proof -
  have "of_int \<lfloor>x\<rfloor> \<le> x" and "x < of_int \<lfloor>x\<rfloor> + 1" by linarith+
  then show ?thesis by (auto simp: round_half_even_def Let_def)
qed

lemma round_half_even_unique:
  assumes "\<bar>of_int m - x\<bar> < 1 / 2 \<or> (\<bar>of_int m - x\<bar> = 1 / 2 \<and> even m)"
  shows "round_half_even x = m"
proof -
  have hi: "x \<le> of_int m + 1/2" and lo: "of_int m - 1/2 \<le> x" using assms by linarith+
  have "\<lfloor>x\<rfloor> \<le> m"
  proof -
    have "x < of_int (m + 1)" using hi by simp
    then have "\<lfloor>x\<rfloor> < m + 1" by (simp only: floor_less_iff)
    then show ?thesis by simp
  qed
  moreover have "m - 1 \<le> \<lfloor>x\<rfloor>"
  proof -
    have "of_int (m - 1) \<le> x" using lo by simp
    then show ?thesis by (simp only: le_floor_iff)
  qed
  ultimately consider "\<lfloor>x\<rfloor> = m" | "\<lfloor>x\<rfloor> = m - 1" by linarith
  then show ?thesis
  proof cases
    case 1
    have fl: "(of_int \<lfloor>x\<rfloor> :: rat) = of_int m" unfolding 1 by simp
    have up: "of_int m \<le> x" using fl of_int_floor_le [of x] by simp
    show ?thesis
    proof (cases "x - of_int m < 1 / 2")
      case True
      then show ?thesis using 1 by (simp add: round_half_even_def Let_def)
    next
      case False
      then have "x - of_int m = 1 / 2" using hi by linarith
      moreover from this up have "even m" using assms by auto
      ultimately show ?thesis using 1 by (simp add: round_half_even_def Let_def)
    qed
  next
    case 2
    have fl: "(of_int \<lfloor>x\<rfloor> :: rat) = of_int m - 1" unfolding 2 by simp
    have xm: "x < of_int m" using fl floor_correct [of x] by linarith
    show ?thesis
    proof (cases "1 / 2 < x - (of_int m - 1)")
      case True
      then show ?thesis using 2 by (simp add: round_half_even_def Let_def)
    next
      case False
      then have h: "x - (of_int m - 1) = 1 / 2" using lo by linarith
      then have "\<bar>of_int m - x\<bar> = 1 / 2" by linarith
      with assms have "even m" by auto
      then have "odd (m - 1)" by simp
      then show ?thesis using 2 h by (simp add: round_half_even_def Let_def)
    qed
  qed
qed

lemma round_mag_cert:
  assumes "0 < q" and "2 powi (e + 52) \<le> q" and "q < 2 powi (e + 53)" and "- 1074 \<le> e"
    and "\<bar>of_int m - q / 2 powi e\<bar> < 1 / 2 \<or> (\<bar>of_int m - q / 2 powi e\<bar> = 1 / 2 \<and> even m)"
    and "of_int m * 2 powi e < (2::rat) powi 1024"
  shows "round_mag q = Some (of_int m * 2 powi e)"
proof -
  have "ilog2 q = e + 52" using assms(1-3) by (intro ilog2_unique) (simp_all add: add.assoc)
  then have "max (ilog2 q - 52) (- 1074) = e" using assms(4) by simp
  moreover have "round_half_even (q / 2 powi e) = m" using assms(5) by (rule round_half_even_unique)
  ultimately show ?thesis using assms(1,6) by (simp add: round_mag_def Let_def)
qed

lemma round_mag_cert_nat:
  assumes "0 < q" and "2 ^ 52 \<le> q * 2 ^ n" and "q * 2 ^ n < 2 ^ 53" and "n \<le> 1074"
    and "\<bar>of_int m - q * 2 ^ n\<bar> < 1 / 2 \<or> (\<bar>of_int m - q * 2 ^ n\<bar> = 1 / 2 \<and> even m)"
  shows "round_mag q = Some (of_int m / 2 ^ n)"
proof -
  let ?e = "- int n"
  have p: "(2::rat) powi ?e = 1 / 2 ^ n" by (simp add: power_int_minus_divide)
  have a: "(2::rat) powi (?e + 52) = 2 ^ 52 / 2 ^ n"
    by (simp add: power_int_diff)
  have b: "(2::rat) powi (?e + 53) = 2 ^ 53 / 2 ^ n"
    by (simp add: power_int_diff)
  have m: "of_int m < (2::rat) ^ 53 + 1 / 2" using assms(3,5) by linarith
  have "of_int m * 2 powi ?e \<le> (2 ^ 53 + 1 / 2) * (1::rat)"
    unfolding p using m by (intro mult_mono) (simp_all add: divide_le_eq)
  also have "\<dots> < 2 powi 1024" by simp
  finally have ov: "of_int m * 2 powi ?e < (2::rat) powi 1024" .
  have "round_mag q = Some (of_int m * 2 powi ?e)"
  proof (rule round_mag_cert)
    show "0 < q" by fact
    show "2 powi (?e + 52) \<le> q" unfolding a using assms(2) by (simp add: divide_le_eq)
    show "q < 2 powi (?e + 53)" unfolding b using assms(3) by (simp add: less_divide_eq)
    show "- 1074 \<le> ?e" using assms(4) by simp
    show "\<bar>of_int m - q / 2 powi ?e\<bar> < 1 / 2 \<or> (\<bar>of_int m - q / 2 powi ?e\<bar> = 1 / 2 \<and> even m)"
      unfolding p using assms(5) by simp
    show "of_int m * 2 powi ?e < (2::rat) powi 1024" by (rule ov)
  qed
  then show ?thesis by (simp add: p)
qed

lemma round_mag_normal_error:
  assumes "2 powi (- 1022) \<le> q" and "q \<le> 2 powi 1023"
  shows "\<exists>r. round_mag q = Some r \<and> 0 < r \<and> \<bar>r - q\<bar> \<le> q * 2 powi (- 53)"
proof -
  have q: "0 < q" using assms(1) by (rule less_le_trans [rotated]) simp
  let ?k = "ilog2 q"
  have "(2::rat) powi (- 1022) < 2 powi (?k + 1)" using assms(1) ilog2_bounds(2) [OF q] by simp
  then have k: "- 1022 < ?k + 1" by (simp only: powi2_less_iff)
  let ?e = "?k - 52"
  have e: "max (?k - 52) (- 1074) = ?e" using k by simp
  have pe: "0 < (2::rat) powi ?e" by simp
  let ?x = "q / 2 powi ?e"
  let ?r = "of_int (round_half_even ?x) * (2::rat) powi ?e"
  have "\<bar>?r - q\<bar> = \<bar>of_int (round_half_even ?x) - ?x\<bar> * 2 powi ?e"
  proof -
    have "?r - q = (of_int (round_half_even ?x) - ?x) * 2 powi ?e"
      using pe by (simp add: algebra_simps)
    then show ?thesis using pe by (simp add: abs_mult)
  qed
  also have "\<dots> \<le> (1 / 2) * 2 powi ?e"
    using round_half_even_error [of ?x] pe by (intro mult_right_mono) simp_all
  also have "\<dots> = 2 powi ?k * 2 powi (- 53)"
    by (simp add: power_int_diff power_int_minus_divide)
  also have "\<dots> \<le> q * 2 powi (- 53)"
    using ilog2_bounds(1) [OF q] by (intro mult_right_mono) simp_all
  finally have err: "\<bar>?r - q\<bar> \<le> q * 2 powi (- 53)" .
  have small: "q * 2 powi (- 53) < q" using q by simp
  have pos: "0 < ?r" using err small by linarith
  have "?r \<le> q + q * 2 powi (- 53)" using err by linarith
  also have "\<dots> \<le> 2 powi 1023 + 2 powi 1023 * 2 powi (- 53)"
    using assms(2) by (intro add_mono mult_right_mono) simp_all
  also have "\<dots> < 2 powi 1024" by simp
  finally have "?r < 2 powi 1024" .
  then have "round_mag q = Some ?r" using q e by (simp add: round_mag_def Let_def)
  with pos err show ?thesis by blast
qed

lemma round_half_even_ge_floor: "\<lfloor>x\<rfloor> \<le> round_half_even x"
  by (simp add: round_half_even_def Let_def)

lemma round_mag_overflow:
  assumes "2 powi 1024 \<le> q"
  shows "round_mag q = None"
proof -
  have q: "0 < q" using assms by (rule less_le_trans [rotated]) simp
  let ?k = "ilog2 q"
  have "(2::rat) powi 1024 < 2 powi (?k + 1)" using assms ilog2_bounds(2) [OF q] by simp
  then have k: "1024 < ?k + 1" by (simp only: powi2_less_iff)
  let ?e = "?k - 52"
  have e: "max (?k - 52) (- 1074) = ?e" using k by simp
  have pe: "0 < (2::rat) powi ?e" by simp
  let ?x = "q / 2 powi ?e"
  have "(2::rat) ^ 52 = 2 powi ?k / 2 powi ?e" by (simp add: power_int_diff [symmetric])
  also have "\<dots> \<le> ?x" using ilog2_bounds(1) [OF q] pe by (simp add: divide_right_mono)
  finally have "of_int (2 ^ 52) \<le> ?x" by simp
  then have "2 ^ 52 \<le> \<lfloor>?x\<rfloor>" by (simp only: le_floor_iff)
  then have "2 ^ 52 \<le> round_half_even ?x" using round_half_even_ge_floor [of ?x] by linarith
  then have "(2::rat) ^ 52 \<le> of_int (round_half_even ?x)"
    by (metis of_int_le_iff of_int_numeral of_int_power)
  then have "(2::rat) ^ 52 * 2 powi ?e \<le> of_int (round_half_even ?x) * 2 powi ?e"
    using pe by (intro mult_right_mono) simp_all
  moreover have "(2::rat) ^ 52 * 2 powi ?e = 2 powi ?k"
    by (simp add: power_int_diff)
  moreover have "(2::rat) powi 1024 \<le> 2 powi ?k" unfolding powi2_le_iff using k by linarith
  ultimately have "\<not> of_int (round_half_even ?x) * 2 powi ?e < (2::rat) powi 1024" by linarith
  then show ?thesis using q e by (simp add: round_mag_def Let_def)
qed

lemma float_lit_cert:
  assumes "0 < q" and "2 ^ 52 \<le> q * 2 ^ n" and "q * 2 ^ n < 2 ^ 53" and "n \<le> 1074"
    and "\<bar>of_int m - q * 2 ^ n\<bar> < 1 / 2 \<or> (\<bar>of_int m - q * 2 ^ n\<bar> = 1 / 2 \<and> even m)"
  shows "float_lit q = Finite False (of_int m / 2 ^ n)"
  using round_mag_cert_nat [OF assms] assms(1) by (simp add: float_lit_def)

lemma float_mul_cert:
  assumes "0 < a * b" and "2 ^ 52 \<le> a * b * 2 ^ n" and "a * b * 2 ^ n < 2 ^ 53" and "n \<le> 1074"
    and "\<bar>of_int m - a * b * 2 ^ n\<bar> < 1 / 2 \<or> (\<bar>of_int m - a * b * 2 ^ n\<bar> = 1 / 2 \<and> even m)"
  shows "float_mul (Finite s a) (Finite t b) = Finite (s \<noteq> t) (of_int m / 2 ^ n)"
  using round_mag_cert_nat [OF assms] by simp

lemma float_div_cert:
  assumes "0 < a / b" and "2 ^ 52 \<le> a / b * 2 ^ n" and "a / b * 2 ^ n < 2 ^ 53" and "n \<le> 1074"
    and "\<bar>of_int m - a / b * 2 ^ n\<bar> < 1 / 2 \<or> (\<bar>of_int m - a / b * 2 ^ n\<bar> = 1 / 2 \<and> even m)"
  shows "float_div (Finite s a) (Finite t b) = Finite (s \<noteq> t) (of_int m / 2 ^ n)"
proof -
  have "b \<noteq> 0" using assms(1) by auto
  then show ?thesis using round_mag_cert_nat [OF assms] by simp
qed


section \<open>The unit factors, evaluated\<close>

lemma lit_1e3: "float_lit (10 ^ 3) = Finite False (8796093022208000 / 2 ^ 43)"
  using float_lit_cert [of "10 ^ 3" 43 8796093022208000] by simp

lemma lit_1em2: "float_lit (1 / 10 ^ 2) = Finite False (5764607523034235 / 2 ^ 59)"
  using float_lit_cert [of "1 / 10 ^ 2" 59 5764607523034235] by simp

lemma lit_1em3: "float_lit (1 / 10 ^ 3) = Finite False (4611686018427388 / 2 ^ 62)"
  using float_lit_cert [of "1 / 10 ^ 3" 62 4611686018427388] by simp

lemma lit_1em6: "float_lit (1 / 10 ^ 6) = Finite False (4722366482869645 / 2 ^ 72)"
  using float_lit_cert [of "1 / 10 ^ 6" 72 4722366482869645] by simp

lemma lit_1em9: "float_lit (1 / 10 ^ 9) = Finite False (4835703278458517 / 2 ^ 82)"
  using float_lit_cert [of "1 / 10 ^ 9" 82 4835703278458517] by simp

lemma lit_25_4: "float_lit (254 / 10) = Finite False (7149464408450662 / 2 ^ 48)"
  using float_lit_cert [of "254 / 10" 48 7149464408450662] by simp

lemma lit_12: "float_lit (12) = Finite False (6755399441055744 / 2 ^ 49)"
  using float_lit_cert [of "12" 49 6755399441055744] by simp

lemma lit_1: "float_lit (1) = Finite False (4503599627370496 / 2 ^ 52)"
  using float_lit_cert [of "1" 52 4503599627370496] by simp

lemma lit_60: "float_lit (60) = Finite False (8444249301319680 / 2 ^ 47)"
  using float_lit_cert [of "60" 47 8444249301319680] by simp

lemma lit_3600: "float_lit (3600) = Finite False (7916483719987200 / 2 ^ 41)"
  using float_lit_cert [of "3600" 41 7916483719987200] by simp

lemma lit_180: "float_lit (180) = Finite False (6333186975989760 / 2 ^ 45)"
  using float_lit_cert [of "180" 45 6333186975989760] by simp

lemma lit_pi: "float_lit (3141592653589793 / 10 ^ 15) = Finite False (7074237752028440 / 2 ^ 51)"
  using float_lit_cert [of "3141592653589793 / 10 ^ 15" 51 7074237752028440] by simp

lemma lit_0_0254: "float_lit (254 / 10 ^ 4) = Finite False (7321051554253478 / 2 ^ 58)"
  using float_lit_cert [of "254 / 10 ^ 4" 58 7321051554253478] by simp

lemma lit_2_54em5: "float_lit (254 / 10 ^ 7) = Finite False (7496756791555562 / 2 ^ 68)"
  using float_lit_cert [of "254 / 10 ^ 7" 68 7496756791555562] by simp

lemma lit_304_8: "float_lit (3048 / 10) = Finite False (5362098306337997 / 2 ^ 44)"
  using float_lit_cert [of "3048 / 10" 44 5362098306337997] by simp

lemma lit_RAD: "float_lit (5729577951308232 / 10 ^ 14) = Finite False (8063664102031864 / 2 ^ 47)"
  using float_lit_cert [of "5729577951308232 / 10 ^ 14" 47 8063664102031864] by simp

lemma lit_MRAD: "float_lit (5729577951308232 / 10 ^ 17) = Finite False (8257192040480628 / 2 ^ 57)"
  using float_lit_cert [of "5729577951308232 / 10 ^ 17" 57 8257192040480628] by simp

lemma lit_URAD: "float_lit (5729577951308232 / 10 ^ 20) = Finite False (8455364649452163 / 2 ^ 67)"
  using float_lit_cert [of "5729577951308232 / 10 ^ 20" 67 8455364649452163] by simp

lemma M_factor: "fst M_value = Finite False (8796093022208000 / 2 ^ 43)"
  unfolding M_value_def lit_1e3 fst_conv by simp

lemma CM_factor: "fst CM_value = Finite False (5629499534213120 / 2 ^ 49)"
  unfolding CM_value_def lit_1em2 M_factor fst_conv
  using float_mul_cert [of "5764607523034235 / 2 ^ 59" "8796093022208000 / 2 ^ 43" 49 5629499534213120 False False] by simp

lemma MM_factor: "fst MM_value = Finite False (4503599627370496 / 2 ^ 52)"
  unfolding MM_value_def lit_1em3 M_factor fst_conv
  using float_mul_cert [of "4611686018427388 / 2 ^ 62" "8796093022208000 / 2 ^ 43" 52 4503599627370496 False False] by simp

lemma UM_factor: "fst UM_value = Finite False (4611686018427388 / 2 ^ 62)"
  unfolding UM_value_def lit_1em6 M_factor fst_conv
  using float_mul_cert [of "4722366482869645 / 2 ^ 72" "8796093022208000 / 2 ^ 43" 62 4611686018427388 False False] by simp

lemma NM_factor: "fst NM_value = Finite False (4722366482869646 / 2 ^ 72)"
  unfolding NM_value_def lit_1em9 M_factor fst_conv
  using float_mul_cert [of "4835703278458517 / 2 ^ 82" "8796093022208000 / 2 ^ 43" 72 4722366482869646 False False] by simp

lemma IN_factor: "fst IN_value = Finite False (7149464408450662 / 2 ^ 48)"
  unfolding IN_value_def lit_25_4 MM_factor fst_conv
  using float_mul_cert [of "7149464408450662 / 2 ^ 48" "4503599627370496 / 2 ^ 52" 48 7149464408450662 False False] by simp

lemma MIL_factor: "fst MIL_value = Finite False (7321051554253478 / 2 ^ 58)"
  unfolding MIL_value_def lit_1em3 IN_factor fst_conv
  using float_mul_cert [of "7149464408450662 / 2 ^ 48" "4611686018427388 / 2 ^ 62" 58 7321051554253478 False False] by simp

lemma THOU_factor: "fst THOU_value = Finite False (7321051554253478 / 2 ^ 58)"
  unfolding THOU_value_def lit_1em3 IN_factor fst_conv
  using float_mul_cert [of "7149464408450662 / 2 ^ 48" "4611686018427388 / 2 ^ 62" 58 7321051554253478 False False] by simp

lemma UIN_factor: "fst UIN_value = Finite False (7496756791555561 / 2 ^ 68)"
  unfolding UIN_value_def lit_1em6 IN_factor fst_conv
  using float_mul_cert [of "7149464408450662 / 2 ^ 48" "4722366482869645 / 2 ^ 72" 68 7496756791555561 False False] by simp

lemma FT_factor: "fst FT_value = Finite False (5362098306337996 / 2 ^ 44)"
  unfolding FT_value_def lit_12 IN_factor fst_conv
  using float_mul_cert [of "6755399441055744 / 2 ^ 49" "7149464408450662 / 2 ^ 48" 44 5362098306337996 False False] by simp

lemma DEG_factor: "fst DEG_value = Finite False (4503599627370496 / 2 ^ 52)"
  unfolding DEG_value_def lit_1 fst_conv by simp

lemma AM_factor: "fst AM_value = Finite False (8444249301319680 / 2 ^ 47)"
  unfolding AM_value_def lit_60 fst_conv by simp

lemma AS_factor: "fst AS_value = Finite False (7916483719987200 / 2 ^ 41)"
  unfolding AS_value_def lit_3600 fst_conv by simp

lemma quotient_180_pi: "float_div (float_lit 180) np_pi = Finite False (8063664102031864 / 2 ^ 47)"
  unfolding np_pi_def lit_180 lit_pi fst_conv
  using float_div_cert [of "6333186975989760 / 2 ^ 45" "7074237752028440 / 2 ^ 51" 47 8063664102031864 False False] by simp

lemma RAD_factor: "fst RAD_value = Finite False (8063664102031864 / 2 ^ 47)"
  unfolding RAD_value_def quotient_180_pi DEG_factor fst_conv
  using float_mul_cert [of "8063664102031864 / 2 ^ 47" "4503599627370496 / 2 ^ 52" 47 8063664102031864 False False] by simp

lemma MRAD_factor: "fst MRAD_value = Finite False (8257192040480629 / 2 ^ 57)"
  unfolding MRAD_value_def lit_1em3 RAD_factor fst_conv
  using float_mul_cert [of "8063664102031864 / 2 ^ 47" "4611686018427388 / 2 ^ 62" 57 8257192040480629 False False] by simp

lemma URAD_factor: "fst URAD_value = Finite False (8455364649452163 / 2 ^ 67)"
  unfolding URAD_value_def lit_1em6 RAD_factor fst_conv
  using float_mul_cert [of "8063664102031864 / 2 ^ 47" "4722366482869645 / 2 ^ 72" 67 8455364649452163 False False] by simp

lemma lit_UIN_repr: "float_lit (25399999999999997 / 10 ^ 21) = Finite False (7496756791555561 / 2 ^ 68)"
  using float_lit_cert [of "25399999999999997 / 10 ^ 21" 68 7496756791555561] by simp

lemma lit_FT_repr: "float_lit (30479999999999995 / 10 ^ 14) = Finite False (5362098306337996 / 2 ^ 44)"
  using float_lit_cert [of "30479999999999995 / 10 ^ 14" 44 5362098306337996] by simp

lemma lit_MRAD_repr: "float_lit (57295779513082325 / 10 ^ 18) = Finite False (8257192040480629 / 2 ^ 57)"
  using float_lit_cert [of "57295779513082325 / 10 ^ 18" 57 8257192040480629] by simp

lemma Units_factor_case:
  "(case fst (Units_value U) of
      Finite s f \<Rightarrow> \<not> s \<and> 2 powi (- 20) \<le> f \<and> f \<le> 2 powi 12
    | _ \<Rightarrow> False)"
  by (cases U)
    (simp_all add: M_factor CM_factor MM_factor UM_factor NM_factor IN_factor MIL_factor
      UIN_factor FT_factor DEG_factor AM_factor AS_factor RAD_factor MRAD_factor URAD_factor
      power_int_minus_divide)

lemma Units_factor_range:
  "\<exists>f. fst (Units_value U) = Finite False f \<and> 2 powi (- 20) \<le> f \<and> f \<le> 2 powi 12"
  using Units_factor_case [of U] by (cases "fst (Units_value U)") auto

lemma py_mul_float: "py_mul other (PFloat f) = mul_float other f"
  by (cases other)
    (auto simp: py_mul_def binary_op_def call_slot_def split: sum.splits)

lemma py_mul_Units:
  "py_mul (PFloat x) (UnitsM U) = Inr (PFloat (float_mul x (fst (Units_value U))))"
  by (simp add: py_mul_def binary_op_def call_slot_def CustomEnumTuple_rmul_def)

lemma powi2_split: "(2::rat) powi (a + b) = 2 powi a * 2 powi b"
  by (simp add: power_int_add)

lemma round_trip_magnitude:
  assumes v: "2 powi (- 1000) \<le> v" "v \<le> 2 powi 1000"
    and f: "2 powi (- 20) \<le> f" "f \<le> 2 powi 12"
  shows "\<exists>w r. round_mag (v / f) = Some w \<and> round_mag (w * f) = Some r \<and>
           \<bar>r - v\<bar> \<le> v * (2 powi (- 52) + 2 powi (- 106))"
proof -
  have vpos: "0 < v" using v(1) by (rule less_le_trans [rotated]) simp
  have fpos: "0 < f" using f(1) by (rule less_le_trans [rotated]) simp
  have lo1: "2 powi (- 1022) \<le> v / f"
  proof -
    have "(2::rat) powi (- 1022) \<le> 2 powi (- 1000) / 2 powi 12"
      by (simp add: power_int_diff [symmetric] powi2_le_iff)
    also have "\<dots> \<le> v / f" using v(1) f(2) fpos by (intro frac_le) simp_all
    finally show ?thesis .
  qed
  have hi1: "v / f \<le> 2 powi 1023"
  proof -
    have "v / f \<le> 2 powi 1000 / 2 powi (- 20)" using v(2) f(1) vpos by (intro frac_le) simp_all
    also have "\<dots> \<le> 2 powi 1023" by (simp add: power_int_diff [symmetric] powi2_le_iff)
    finally show ?thesis .
  qed
  from round_mag_normal_error [OF lo1 hi1]
  obtain w where w: "round_mag (v / f) = Some w" "0 < w" "\<bar>w - v / f\<bar> \<le> v / f * 2 powi (- 53)"
    by blast
  let ?u = "(2::rat) powi (- 53)"
  have u: "0 < ?u" "?u \<le> 1 / 2" by (simp_all add: power_int_minus_divide)
  have "\<bar>w * f - v\<bar> = \<bar>w - v / f\<bar> * f"
  proof -
    have "w * f - v = (w - v / f) * f" using fpos by (simp add: algebra_simps)
    then show ?thesis using fpos by (simp add: abs_mult)
  qed
  also have "\<dots> \<le> (v / f * ?u) * f" using w(3) fpos by (intro mult_right_mono) simp_all
  also have "\<dots> = v * ?u" using fpos by simp
  finally have e1: "\<bar>w * f - v\<bar> \<le> v * ?u" .
  have half: "v * ?u \<le> v / 2" using u(2) vpos by (simp add: field_simps)
  have lo2: "2 powi (- 1022) \<le> w * f"
  proof -
    have "(2::rat) powi (- 1022) \<le> 2 powi (- 1000) / 2" by (simp add: power_int_minus_divide)
    also have "\<dots> \<le> v / 2" using v(1) by simp
    also have "\<dots> \<le> w * f" using e1 half by linarith
    finally show ?thesis .
  qed
  have hi2: "w * f \<le> 2 powi 1023"
  proof -
    have "w * f \<le> v + v / 2" using e1 half by linarith
    also have "\<dots> \<le> 2 powi 1000 + 2 powi 1000 / 2" using v(2) by simp
    also have "\<dots> \<le> 2 powi 1023" by simp
    finally show ?thesis .
  qed
  from round_mag_normal_error [OF lo2 hi2]
  obtain r where r: "round_mag (w * f) = Some r" "\<bar>r - w * f\<bar> \<le> w * f * ?u" by blast
  have wf: "w * f \<le> v + v * ?u" using e1 by linarith
  have "\<bar>r - v\<bar> \<le> \<bar>r - w * f\<bar> + \<bar>w * f - v\<bar>" by linarith
  also have "\<dots> \<le> w * f * ?u + v * ?u" using r(2) e1 by linarith
  also have "\<dots> \<le> (v + v * ?u) * ?u + v * ?u"
    using wf u(1) by (intro add_right_mono mult_right_mono) simp_all
  also have "\<dots> = v * (2 * ?u + ?u * ?u)" by (simp add: algebra_simps)
  also have "2 * ?u + ?u * ?u = 2 powi (- 52) + 2 powi (- 106)"
    by (simp add: power_int_minus_divide)
  finally show ?thesis using w(1) r(1) by blast
qed


section \<open>Units and Objects: conversion arithmetic\<close>

text \<open>
  C2 (as amended). Through the helper \<open>rdiv\<close> and the operator \<open>*\<close>: for every member \<open>U\<close>
  of \<open>Units\<close> (the spatial ones among them) and every float of sign \<open>s\<close> and magnitude \<open>v\<close>
  between \<open>2^-1000\<close> and \<open>2^1000\<close>, \<open>U.rdiv(v)\<close> returns a finite float \<open>w\<close> and \<open>w * U\<close> a
  finite float of the same sign whose magnitude is within \<open>v * (2^-52 + 2^-106)\<close> of
  \<open>v\<close>; for \<open>v = 0\<close> the round trip is exact.
\<close>

theorem unit_round_trip:
  "(rdiv U (PFloat (Finite s 0)) = Inr (PFloat (Finite s 0)) \<and>
    py_mul (PFloat (Finite s 0)) (UnitsM U) = Inr (PFloat (Finite s 0))) \<and>
   (2 powi (- 1000) \<le> v \<and> v \<le> 2 powi 1000 \<longrightarrow>
      (\<exists>w r. rdiv U (PFloat (Finite s v)) = Inr (PFloat (Finite s w)) \<and>
             py_mul (PFloat (Finite s w)) (UnitsM U) = Inr (PFloat (Finite s r)) \<and>
             \<bar>r - v\<bar> \<le> v * (2 powi (- 52) + 2 powi (- 106))))"
proof -
  obtain f where f: "fst (Units_value U) = Finite False f" "2 powi (- 20) \<le> f" "f \<le> 2 powi 12"
    using Units_factor_range by blast
  have fpos: "0 < f" using f(2) by (rule less_le_trans [rotated]) simp
  have zero: "rdiv U (PFloat (Finite s 0)) = Inr (PFloat (Finite s 0)) \<and>
    py_mul (PFloat (Finite s 0)) (UnitsM U) = Inr (PFloat (Finite s 0))"
    using fpos by (simp add: rdiv_def py_mul_Units f(1) float_truediv_def round_mag_def)
  have "\<exists>w r. rdiv U (PFloat (Finite s v)) = Inr (PFloat (Finite s w)) \<and>
             py_mul (PFloat (Finite s w)) (UnitsM U) = Inr (PFloat (Finite s r)) \<and>
             \<bar>r - v\<bar> \<le> v * (2 powi (- 52) + 2 powi (- 106))"
    if v: "2 powi (- 1000) \<le> v" "v \<le> 2 powi 1000"
  proof -
    from round_trip_magnitude [OF v f(2,3)]
    obtain w r where wr: "round_mag (v / f) = Some w" "round_mag (w * f) = Some r"
      "\<bar>r - v\<bar> \<le> v * (2 powi (- 52) + 2 powi (- 106))" by blast
    have "rdiv U (PFloat (Finite s v)) = Inr (PFloat (Finite s w))"
      using fpos wr(1) by (simp add: rdiv_def f(1) float_truediv_def)
    moreover have "py_mul (PFloat (Finite s w)) (UnitsM U) = Inr (PFloat (Finite s r))"
      using wr(2) by (simp add: py_mul_Units f(1))
    ultimately show ?thesis using wr(3) by blast
  qed
  with zero show ?thesis by blast
qed

lemma five_over_CM: "rdiv CM (PFloat (Finite False 5)) = Inr (PFloat (Finite False (1 / 2)))"
  unfolding rdiv_def Units_value.simps CM_factor truediv_float.simps float_truediv_def
  using float_div_cert [of 5 "5629499534213120 / 2 ^ 49" 53 4503599627370496 False False]
  by simp

lemma half_times_CM: "py_mul (PFloat (Finite False (1 / 2))) (UnitsM CM) = Inr (PFloat (Finite False 5))"
  unfolding py_mul_Units Units_value.simps CM_factor
  using float_mul_cert [of "1 / 2" "5629499534213120 / 2 ^ 49" 50 5629499534213120 False False]
  by simp

theorem unit_round_trip_witness:
  "2 powi (- 1000) \<le> (5::rat) \<and> (5::rat) \<le> 2 powi 1000 \<and>
   rdiv CM (PFloat (Finite False 5)) = Inr (PFloat (Finite False (1 / 2))) \<and>
   py_mul (PFloat (Finite False (1 / 2))) (UnitsM CM) = Inr (PFloat (Finite False 5)) \<and>
   (\<exists>w r. rdiv CM (PFloat (Finite False 5)) = Inr (PFloat (Finite False w)) \<and>
      py_mul (PFloat (Finite False w)) (UnitsM CM) = Inr (PFloat (Finite False r)) \<and>
      \<bar>r - 5\<bar> \<le> 5 * (2 powi (- 52) + 2 powi (- 106)))"
proof -
  have a: "2 powi (- 1000) \<le> (5::rat)" by (simp add: power_int_minus_divide)
  have b: "(5::rat) \<le> 2 powi 1000" by simp
  show ?thesis using a b unit_round_trip [of CM False 5] five_over_CM half_times_CM
    by blast
qed

lemma overflow_over_NM:
  "rdiv NM (PFloat (Finite False (2 ^ 1023))) = Inr (PFloat (Infinity False))"
proof -
  have "(2::rat) powi 1024 \<le> 2 ^ 1023 / (4722366482869646 / 2 ^ 72)" by simp
  then have "round_mag (2 ^ 1023 / (4722366482869646 / 2 ^ 72)) = None"
    by (rule round_mag_overflow)
  then show ?thesis
    unfolding rdiv_def Units_value.simps NM_factor truediv_float.simps float_truediv_def
    by simp
qed

text \<open>
  The round trip as the claim writes it does not go through. The operator \<open>/\<close> finds no
  \<open>__rtruediv__\<close> on a \<open>Units\<close> member and raises \<open>TypeError\<close>: \<open>5.0 / Units.CM\<close> has no
  value. And through the helper, not every finite \<open>v\<close> comes back: \<open>2^1023\<close> divided by
  the factor of \<open>NM\<close> overflows to infinity, and infinity times the factor stays there.
\<close>

theorem unit_division_counterexample:
  "py_truediv (PFloat (Finite False 5)) (UnitsM CM) =
     Inl (TypeError (''unsupported operand type(s) for /: '' @ [CHR 0x27] @ ''float''
                     @ [CHR 0x27] @ '' and '' @ [CHR 0x27] @ ''Units'' @ [CHR 0x27])) \<and>
   rdiv NM (PFloat (Finite False (2 ^ 1023))) = Inr (PFloat (Infinity False)) \<and>
   py_mul (PFloat (Infinity False)) (UnitsM NM) = Inr (PFloat (Infinity False))"
proof -
  have "py_truediv (PFloat (Finite False 5)) (UnitsM CM) =
     Inl (TypeError (''unsupported operand type(s) for /: '' @ [CHR 0x27] @ ''float''
                     @ [CHR 0x27] @ '' and '' @ [CHR 0x27] @ ''Units'' @ [CHR 0x27]))"
    by (simp add: py_truediv_def binary_op_def call_slot_def unsupported_def)
  moreover have "py_mul (PFloat (Infinity False)) (UnitsM NM) = Inr (PFloat (Infinity False))"
    unfolding py_mul_Units Units_value.simps NM_factor by simp
  ultimately show ?thesis using overflow_over_NM by simp
qed

text \<open>
  C8. For every member of \<open>Objects\<close>: its \<open>__rmul__\<close> and \<open>__rtruediv__\<close> return
  \<open>NotImplemented\<close> for any other operand, and multiplication and true division of an
  integer or a float with the member, in either order, raise the \<open>TypeError\<close> for
  unsupported operand types; no number results.
\<close>

theorem string_enum_refuses_arithmetic:
  "CustomEnumString_rmul member other = NotImplemented \<and>
   CustomEnumString_rtruediv member other = NotImplemented \<and>
   py_mul (PInt i) (ObjectsM member) = Inl (unsupported ''*'' (PInt i) (ObjectsM member)) \<and>
   py_mul (PFloat x) (ObjectsM member) = Inl (unsupported ''*'' (PFloat x) (ObjectsM member)) \<and>
   py_truediv (PInt i) (ObjectsM member) = Inl (unsupported ''/'' (PInt i) (ObjectsM member)) \<and>
   py_truediv (PFloat x) (ObjectsM member)
     = Inl (unsupported ''/'' (PFloat x) (ObjectsM member)) \<and>
   py_mul (ObjectsM member) (PInt i) = Inl (unsupported ''*'' (ObjectsM member) (PInt i)) \<and>
   py_mul (ObjectsM member) (PFloat x) = Inl (unsupported ''*'' (ObjectsM member) (PFloat x)) \<and>
   py_truediv (ObjectsM member) (PInt i) = Inl (unsupported ''/'' (ObjectsM member) (PInt i)) \<and>
   py_truediv (ObjectsM member) (PFloat x)
     = Inl (unsupported ''/'' (ObjectsM member) (PFloat x))"
  by (simp add: CustomEnumString_rmul_def CustomEnumString_rtruediv_def py_mul_def
      py_truediv_def binary_op_def call_slot_def)

theorem string_enum_refuses_arithmetic_witness:
  "py_mul (PInt 3) (ObjectsM ELEMENT) =
     Inl (TypeError (''unsupported operand type(s) for *: '' @ [CHR 0x27] @ ''int''
                     @ [CHR 0x27] @ '' and '' @ [CHR 0x27] @ ''Objects'' @ [CHR 0x27]))"
  using string_enum_refuses_arithmetic [of ELEMENT "PInt 3" 3 NaN]
  by (simp add: unsupported_def)


text \<open>
  C9 (as amended). Five of the derived factors are exactly the floats written \<open>25.4\<close>
  (IN), \<open>0.0254\<close> (MIL and its alias THOU), \<open>57.29577951308232\<close> (RAD) and
  \<open>5.729577951308232e-05\<close> (URAD). The other three are one unit in the last place away
  from the listed values: UIN is \<open>2.5399999999999997e-05\<close>, FT is \<open>304.79999999999995\<close>
  and MRAD is \<open>0.057295779513082325\<close>.
\<close>

theorem derived_factors:
  "fst (Units_value IN) = float_lit (254 / 10) \<and>
   fst (Units_value MIL) = float_lit (254 / 10 ^ 4) \<and>
   fst (Units_value THOU) = float_lit (254 / 10 ^ 4) \<and>
   fst (Units_value RAD) = float_lit (5729577951308232 / 10 ^ 14) \<and>
   fst (Units_value URAD) = float_lit (5729577951308232 / 10 ^ 20) \<and>
   fst (Units_value UIN) = float_lit (25399999999999997 / 10 ^ 21) \<and>
   fst (Units_value FT) = float_lit (30479999999999995 / 10 ^ 14) \<and>
   fst (Units_value MRAD) = float_lit (57295779513082325 / 10 ^ 18)"
  unfolding THOU_def Units_value.simps IN_factor MIL_factor RAD_factor URAD_factor UIN_factor
    FT_factor MRAD_factor lit_25_4 lit_0_0254 lit_RAD lit_URAD lit_UIN_repr lit_FT_repr
    lit_MRAD_repr
  by simp

text \<open>
  UIN, FT and MRAD are not the floats written \<open>2.54e-5\<close>, \<open>304.8\<close> and
  \<open>0.05729577951308232\<close>.
\<close>

theorem derived_factors_counterexample:
  "fst (Units_value UIN) \<noteq> float_lit (254 / 10 ^ 7) \<and>
   fst (Units_value FT) \<noteq> float_lit (3048 / 10) \<and>
   fst (Units_value MRAD) \<noteq> float_lit (5729577951308232 / 10 ^ 17)"
  unfolding Units_value.simps UIN_factor FT_factor MRAD_factor lit_2_54em5 lit_304_8 lit_MRAD
  by simp

section \<open>The grid bindings: point counts and failures\<close>

lemma loadRefllib_events: "e \<in> set (snd (loadRefllib files)) \<Longrightarrow> \<exists>f. e = CDLL f"
  by (auto simp: loadRefllib_def split: option.splits)

lemma example_load:
  "loadRefllib example_files = (Inr example_engine, [CDLL ''pyporefl.dll'', CDLL ''libpyporefl.so''])"
  by (simp add: loadRefllib_def example_files_def)

lemma nd_size_to_array: "nd_size (to_array buf shp) = prod_list shp"
  by (simp add: nd_size_def to_array_def)

text \<open>
  C6. When the library loads and has the entry point, and the record's grid size is the
  pair \<open>(a, b)\<close> of non-negative integers, \<open>generateGrid\<close> makes one native call and
  returns a grid whose seven arrays each have the shape \<open>(a, b)\<close> and so \<open>a * b\<close>
  elements, the element at \<open>[i, j]\<close> being what the entry point wrote at position
  \<open>i * b + j\<close> of the buffer; for \<open>(4, 5)\<close> that is 20 elements each.
\<close>

theorem grid_point_count:
  assumes "loadRefllib files = (Inr lib, evs)"
    and "entry_generateGrid lib = Some entry"
    and "reflparams_py ''gridsize'' = Some (VTuple [a, b])"
    and "0 \<le> a" and "0 \<le> b"
  shows "\<exists>grids. generateGrid files reflparams_py transform spheric
                    = (Inr grids, evs @ [NativeCall ''generateGrid'']) \<and>
                 (\<forall>arr \<in> set (seven_arrays grids).
                     nd_shape arr = [nat a, nat b] \<and> nd_size arr = nat (a * b)) \<and>
                 (\<forall>i < nat a. \<forall>j < nat b.
                     nd_item (grid_x grids) [i, j]
                       = entry (allfill_reflparams reflparams_py) transform spheric 0 (i * nat b + j))"
proof -
  let ?res = "native_write (entry (allfill_reflparams reflparams_py) transform spheric)
                (allocate_reflcontainer (a * b))"
  let ?g = "creflToObj ?res [nat a, nat b]"
  have run: "generateGrid files reflparams_py transform spheric
               = (Inr ?g, evs @ [NativeCall ''generateGrid''])"
    using assms(1-3) by (simp add: generateGrid_def py_index_def shape_of_def Let_def)
  have n: "nat (a * b) = nat a * nat b" using assms(4) by (simp add: nat_mult_distrib)
  have sz: "\<forall>arr \<in> set (seven_arrays ?g). nd_shape arr = [nat a, nat b] \<and> nd_size arr = nat (a * b)"
    by (simp add: seven_arrays_def creflToObj_def nd_size_to_array n) (simp add: to_array_def)
  have it: "nd_item (grid_x ?g) [i, j]
              = entry (allfill_reflparams reflparams_py) transform spheric 0 (i * nat b + j)"
    if "i < nat a" "j < nat b" for i j
  proof -
    have "i * nat b + j < nat a * nat b"
    proof -
      have "i * nat b + j < i * nat b + nat b" using that(2) by simp
      also have "\<dots> = (i + 1) * nat b" by simp
      also have "\<dots> \<le> nat a * nat b" using that(1) by (intro mult_le_mono1) simp
      finally show ?thesis .
    qed
    then show ?thesis using that
      by (simp add: creflToObj_def to_array_def native_write_def written_def
          allocate_reflcontainer_def Let_def n)
  qed
  show ?thesis using run sz it by blast
qed

theorem grid_point_count_witness:
  "\<exists>grids. generateGrid example_files example_reflector True True
            = (Inr grids, [CDLL ''pyporefl.dll'', CDLL ''libpyporefl.so'', NativeCall ''generateGrid'']) \<and>
          nd_size (grid_x grids) = 20 \<and> nd_size (grid_y grids) = 20 \<and>
          nd_size (grid_z grids) = 20 \<and> nd_size (grid_nx grids) = 20 \<and>
          nd_size (grid_ny grids) = 20 \<and> nd_size (grid_nz grids) = 20 \<and>
          nd_size (grid_area grids) = 20"
  using grid_point_count [OF example_load, of "the (entry_generateGrid example_engine)"
      example_reflector 4 5 True True]
  by (auto simp: example_engine_def example_reflector_def seven_arrays_def)

lemma message_names_key: "sublist ''po_points'' (po_points_message name)"
proof -
  have "sublist ''po_points'' ([CHR 0x22] @ ''po_points'' @ ([CHR 0x22] @ '' not defined on ''
          @ py_str name @ ''. Cannot generate PO grid.''))"
    by (rule sublist_appendI)
  then show ?thesis by (simp only: po_points_message_def append_assoc)
qed

lemma message_names_surface: "sublist (py_str name) (po_points_message name)"
proof -
  have "sublist (py_str name) (([CHR 0x22] @ ''po_points'' @ [CHR 0x22] @ '' not defined on '')
          @ py_str name @ ''. Cannot generate PO grid.'')"
    by (rule sublist_appendI)
  then show ?thesis by (simp only: po_points_message_def append_assoc)
qed

text \<open>
  C3 (as amended). When the library loads, and the record has no \<open>po_points\<close> but a
  \<open>name\<close>, \<open>generatePOGrid\<close> fails with the ValueError whose message contains the key
  name \<open>po_points\<close> and the name's value, and nothing but the attempts to load the library
  has happened: no native entry point was called. The result depends on the record
  through its \<open>name\<close> only.
\<close>

theorem missing_po_points:
  assumes "loadRefllib files = (Inr lib, evs)"
    and "reflparams_py ''po_points'' = None"
    and "reflparams_py ''name'' = Some name"
  shows "generatePOGrid files reflparams_py transform
           = (Inl (ValueError (po_points_message name)), evs) \<and>
         sublist ''po_points'' (po_points_message name) \<and>
         sublist (py_str name) (po_points_message name) \<and>
         (\<forall>e \<in> set evs. \<forall>f. e \<noteq> NativeCall f)"
proof -
  have "generatePOGrid files reflparams_py transform
           = (Inl (ValueError (po_points_message name)), evs)"
    using assms by (simp add: generatePOGrid_def)
  moreover have "\<forall>e \<in> set evs. \<forall>f. e \<noteq> NativeCall f"
    using loadRefllib_events [of _ files] assms(1) by auto
  ultimately show ?thesis
    using message_names_key [of name] message_names_surface [of name] by simp
qed

theorem missing_po_points_witness:
  "generatePOGrid example_files example_reflector True
     = (Inl (ValueError ([CHR 0x22] @ ''po_points'' @ [CHR 0x22]
                         @ '' not defined on primary. Cannot generate PO grid.'')),
        [CDLL ''pyporefl.dll'', CDLL ''libpyporefl.so''])"
  using missing_po_points [OF example_load, of example_reflector "VStr ''primary''" True]
  by (simp add: example_reflector_def po_points_message_def)

text \<open>
  The library is loaded before the key is looked for: where none of the three files
  loads, a record without \<open>po_points\<close> gets the load's \<open>OSError\<close>, not the configuration
  error.
\<close>

theorem missing_po_points_counterexample:
  "example_reflector ''po_points'' = None \<and>
   generatePOGrid no_files example_reflector True
     = (Inl (OSError ''libpyporefl.dylib: cannot open shared object file''),
        [CDLL ''pyporefl.dll'', CDLL ''libpyporefl.so'', CDLL ''libpyporefl.dylib''])"
  by (simp add: example_reflector_def generatePOGrid_def loadRefllib_def no_files_def)

text \<open>The module has no attribute \<open>po_grids\<close>, so \<open>generatePOGrid\<close> never returns a value.\<close>

lemma no_po_grids: "PTypes_getattr ''po_grids''
    = Inl (AttributeError ''module PyPO.PyPOTypes has no attribute po_grids'')"
  by (simp add: PTypes_getattr_def PyPOTypes_names_def)

lemma generatePOGrid_never_returns:
  "\<exists>e. fst (generatePOGrid files reflparams_py transform) = Inl e"
proof (cases "loadRefllib files")
  case (Pair r evs)
  show ?thesis
  proof (cases r)
    case (Inl e)
    then show ?thesis using Pair by (simp add: generatePOGrid_def)
  next
    case (Inr lib)
    show ?thesis
    proof (cases "reflparams_py ''po_points''")
      case None
      then show ?thesis using Pair Inr
        by (cases "reflparams_py ''name''") (simp_all add: generatePOGrid_def)
    next
      case (Some pp)
      then show ?thesis using Pair Inr
        by (cases "pair_product pp") (simp_all add: generatePOGrid_def no_po_grids)
    qed
  qed
qed

text \<open>
  C1. \<open>generatePOGrid\<close> constructs its result with \<open>PTypes.po_grids()\<close>, and the module
  defines no \<open>po_grids\<close>: the lookup raises, so no call returns a PO-grid object, also
  for a record with all four keys and a library that loads.
\<close>

theorem generatePOGrid_no_po_grids_class:
  "generatePOGrid example_files example_po_reflector True
     = (Inl (AttributeError ''module PyPO.PyPOTypes has no attribute po_grids''),
        [CDLL ''pyporefl.dll'', CDLL ''libpyporefl.so''])"
  by (simp add: generatePOGrid_def example_load example_po_reflector_def py_index_def
      no_po_grids)

end
